theory Spec2Isabelle
  imports Complex_Main "HOL-Library.Log_Nat"
begin

section \<open>Python values and the random module\<close>

text \<open>
  Python ints are modelled as \<open>int\<close>. The floats of the Bezier computation are modelled as
  IEEE-754 binary64 values with round-to-nearest-even (section Floats); delays, pauses and
  probabilities are modelled as reals. The random module is modelled with its entropy as an
  explicit input: \<open>random.random()\<close> is a draw \<open>r\<close> with \<open>0 \<le> r < 1\<close> (\<open>unit_draw\<close>),
  \<open>random.uniform(a, b)\<close> is \<open>a + (b - a) * random()\<close>, and \<open>random.randint(a, b)\<close>
  selects one of the \<open>b - a + 1\<close> integers of \<open>[a, b]\<close> by an entropy value \<open>k\<close>. On an empty
  range Python raises ValueError: call sites whose bounds are computed use
  \<open>randint_checked\<close>, call sites with literal bounds use \<open>randint\<close>.
\<close>

datatype py_error =
    ValueError | OverflowError | ZeroDivisionError | TimeoutException | WebDriverException

definition bind_e :: "py_error + 'a \<Rightarrow> ('a \<Rightarrow> py_error + 'b) \<Rightarrow> py_error + 'b" where
  "bind_e r f = (case r of Inl e \<Rightarrow> Inl e | Inr x \<Rightarrow> f x)"

definition unit_draw :: "real \<Rightarrow> bool" where
  "unit_draw r \<longleftrightarrow> 0 \<le> r \<and> r < 1"

definition uniform :: "real \<Rightarrow> real \<Rightarrow> real \<Rightarrow> real" where
  "uniform a b r = a + (b - a) * r"

definition randint :: "int \<Rightarrow> int \<Rightarrow> nat \<Rightarrow> int" where
  "randint a b k = a + int (k mod nat (b - a + 1))"

definition randint_checked :: "int \<Rightarrow> int \<Rightarrow> nat \<Rightarrow> py_error + int" where
  "randint_checked a b k = (if b < a then Inl ValueError else Inr (randint a b k))"

text \<open>\<open>x or d\<close> on an optional float: \<open>None\<close> and \<open>0\<close> are both falsy.\<close>

definition py_or :: "real option \<Rightarrow> real \<Rightarrow> real" where
  "py_or x d = (case x of None \<Rightarrow> d | Some v \<Rightarrow> if v = 0 then d else v)"

text \<open>\<open>s or d\<close> on an optional string: \<open>None\<close> and the empty string are both falsy.\<close>

definition py_or_str :: "string option \<Rightarrow> string \<Rightarrow> string" where
  "py_or_str s d = (case s of None \<Rightarrow> d | Some v \<Rightarrow> if v = [] then d else v)"

text \<open>\<open>range(n)\<close>: the integers \<open>0, ..., n - 1\<close>, empty for \<open>n \<le> 0\<close>.\<close>

definition py_range :: "int \<Rightarrow> int list" where
  "py_range n = [0..n - 1]"

section \<open>Floats\<close>

text \<open>
  A Python float is an IEEE-754 binary64 value: a finite double (the real it denotes; the
  sign of zero is not kept, nothing below observes it), an infinity or a NaN. The result of
  an arithmetic operation is the exact result rounded to the nearest double, ties to the
  even mantissa: a double is a multiple of \<open>2 ^ e\<close> for \<open>e = max (\<lfloor>log2 |x|\<rfloor> - 52) (-1074)\<close>.
  A rounded magnitude of \<open>2 ^ 1024\<close> or more overflows.
\<close>

datatype pyfloat = Fin real | PosInf | NegInf | NaN

text \<open>\<open>\<lfloor>log2 x\<rfloor>\<close> for \<open>x > 0\<close>, from the bit length of an integer.\<close>

definition floor_log2 :: "real \<Rightarrow> int" where
  "floor_log2 x = (if 1 \<le> x then bitlen \<lfloor>x\<rfloor> - 1 else - bitlen (\<lceil>1 / x\<rceil> - 1))"

definition round_half_even :: "real \<Rightarrow> int" where
  "round_half_even r =
     (let f = \<lfloor>r\<rfloor>; d = r - of_int f
      in if d < 1 / 2 then f else if 1 / 2 < d then f + 1 else if even f then f else f + 1)"

definition ulp_exponent :: "real \<Rightarrow> int" where
  "ulp_exponent x = max (floor_log2 \<bar>x\<bar> - 52) (- 1074)"

definition round_double :: "real \<Rightarrow> real" where
  "round_double x =
     (if x = 0 then 0
      else of_int (round_half_even (x / 2 powi ulp_exponent x)) * 2 powi ulp_exponent x)"

text \<open>The least magnitude that overflows.\<close>

definition huge :: real where
  "huge = 2 ^ 1024"

text \<open>The float an operation returns whose exact result is \<open>x\<close>.\<close>

definition fl :: "real \<Rightarrow> pyfloat" where
  "fl x =
     (let r = round_double x
      in if huge \<le> r then PosInf else if r \<le> - huge then NegInf else Fin r)"

fun fneg :: "pyfloat \<Rightarrow> pyfloat" where
  "fneg (Fin a) = Fin (- a)"
| "fneg PosInf = NegInf"
| "fneg NegInf = PosInf"
| "fneg NaN = NaN"

fun fadd :: "pyfloat \<Rightarrow> pyfloat \<Rightarrow> pyfloat" where
  "fadd (Fin a) (Fin b) = fl (a + b)"
| "fadd NaN y = NaN"
| "fadd x NaN = NaN"
| "fadd PosInf NegInf = NaN"
| "fadd NegInf PosInf = NaN"
| "fadd PosInf y = PosInf"
| "fadd NegInf y = NegInf"
| "fadd (Fin a) y = y"

definition fsub :: "pyfloat \<Rightarrow> pyfloat \<Rightarrow> pyfloat" where
  "fsub x y = fadd x (fneg y)"

text \<open>The product of an infinity and a finite float: zero gives NaN, otherwise the signs multiply.\<close>

definition inf_times :: "bool \<Rightarrow> real \<Rightarrow> pyfloat" where
  "inf_times positive a =
     (if a = 0 then NaN else if (0 < a) = positive then PosInf else NegInf)"

fun fmul :: "pyfloat \<Rightarrow> pyfloat \<Rightarrow> pyfloat" where
  "fmul (Fin a) (Fin b) = fl (a * b)"
| "fmul NaN y = NaN"
| "fmul x NaN = NaN"
| "fmul PosInf (Fin b) = inf_times True b"
| "fmul NegInf (Fin b) = inf_times False b"
| "fmul (Fin a) PosInf = inf_times True a"
| "fmul (Fin a) NegInf = inf_times False a"
| "fmul PosInf PosInf = PosInf"
| "fmul NegInf NegInf = PosInf"
| "fmul PosInf NegInf = NegInf"
| "fmul NegInf PosInf = NegInf"

text \<open>
  An int operand of a float operation is converted first: correctly rounded, and
  OverflowError (int too large to convert to float) when the rounded value is out of range.
\<close>

definition float_of_int :: "int \<Rightarrow> py_error + pyfloat" where
  "float_of_int n =
     (let r = round_double (of_int n)
      in if huge \<le> \<bar>r\<bar> then Inl OverflowError else Inr (Fin r))"

text \<open>
  \<open>a / b\<close> on two ints: the correctly rounded quotient, ZeroDivisionError for \<open>b = 0\<close>,
  OverflowError when the quotient is too large for a float.
\<close>

definition int_truediv :: "int \<Rightarrow> int \<Rightarrow> py_error + pyfloat" where
  "int_truediv a b =
     (if b = 0 then Inl ZeroDivisionError
      else let r = round_double (of_int a / of_int b)
           in if huge \<le> \<bar>r\<bar> then Inl OverflowError else Inr (Fin r))"

text \<open>
  \<open>x ** n\<close> on a float and a positive int. The interpreter answers itself for a NaN, an
  infinite or a zero base and for a base of magnitude 1; otherwise it calls the C library's
  \<open>pow\<close> on the magnitude of the base and negates the result for a negative base and an
  odd exponent. The library function is the parameter \<open>pw\<close>: its results are close to the
  power but not always the correctly rounded one. A result out of range raises
  OverflowError.
\<close>

definition float_pow :: "(real \<Rightarrow> nat \<Rightarrow> real) \<Rightarrow> pyfloat \<Rightarrow> nat \<Rightarrow> py_error + pyfloat" where
  "float_pow pw x n =
     (if n = 0 then Inr (Fin 1)
      else case x of
        NaN \<Rightarrow> Inr NaN
      | PosInf \<Rightarrow> Inr PosInf
      | NegInf \<Rightarrow> Inr (if odd n then NegInf else PosInf)
      | Fin a \<Rightarrow>
          if a = 0 then Inr (Fin 0)
          else let negate = (a < 0 \<and> odd n);
                   r = (if \<bar>a\<bar> = 1 then 1 else pw \<bar>a\<bar> n)
               in if huge \<le> \<bar>r\<bar> then Inl OverflowError
                  else Inr (Fin (if negate then - r else r)))"

text \<open>
  \<open>int(x)\<close> on a float truncates towards zero; an infinity raises OverflowError, a NaN
  ValueError.
\<close>

definition py_int :: "pyfloat \<Rightarrow> py_error + int" where
  "py_int x =
     (case x of
        Fin a \<Rightarrow> Inr (if 0 \<le> a then \<lfloor>a\<rfloor> else \<lceil>a\<rceil>)
      | PosInf \<Rightarrow> Inl OverflowError
      | NegInf \<Rightarrow> Inl OverflowError
      | NaN \<Rightarrow> Inl ValueError)"

text \<open>A C library whose \<open>pow\<close> is correctly rounded, as a concrete instance for \<open>pw\<close>.\<close>

definition reference_pow :: "real \<Rightarrow> nat \<Rightarrow> real" where
  "reference_pow x n = round_double (x ^ n)"

text \<open>
  What the theorems below require of the C library's \<open>pow\<close>: a power of a base in \<open>[0, 1]\<close>
  lies in \<open>[0, 1]\<close>.
\<close>

definition pow_in_unit :: "(real \<Rightarrow> nat \<Rightarrow> real) \<Rightarrow> bool" where
  "pow_in_unit pw \<longleftrightarrow> (\<forall>x n. 0 \<le> x \<and> x \<le> 1 \<longrightarrow> 0 \<le> pw x n \<and> pw x n \<le> 1)"

text \<open>A finite float of magnitude at most \<open>2 ^ k\<close>.\<close>

definition finite_within :: "nat \<Rightarrow> pyfloat \<Rightarrow> bool" where
  "finite_within k x = (case x of Fin a \<Rightarrow> \<bar>a\<bar> \<le> 2 ^ k | PosInf \<Rightarrow> False | NegInf \<Rightarrow> False | NaN \<Rightarrow> False)"

section \<open>config.py\<close>

record config =
  MIN_WATCH_TIME :: int
  MAX_WATCH_TIME :: int
  MIN_INTERACTION_DELAY :: real
  MAX_INTERACTION_DELAY :: real
  SCROLL_PROBABILITY :: real
  CLICK_PROBABILITY :: real
  TARGET_VIDEO_URL :: string

text \<open>The defaults of the class body, used where the environment does not set a variable.\<close>

definition default_config :: config where
  "default_config =
     \<lparr>MIN_WATCH_TIME = 30, MAX_WATCH_TIME = 300,
      MIN_INTERACTION_DELAY = 3 / 2, MAX_INTERACTION_DELAY = 5,
      SCROLL_PROBABILITY = 3 / 10, CLICK_PROBABILITY = 2 / 10,
      TARGET_VIDEO_URL = []\<rparr>"

text \<open>
  An environment variable read through \<open>int(os.getenv(...))\<close> or
  \<open>float(os.getenv(...))\<close> is unset (the default applies), holds text that parses to a
  number, or holds text on which the conversion raises ValueError.
\<close>

datatype 'a env_var = Unset | Parsed 'a | Unparsable

record environment =
  env_MIN_WATCH_TIME :: "int env_var"
  env_MAX_WATCH_TIME :: "int env_var"
  env_MIN_INTERACTION_DELAY :: "real env_var"
  env_MAX_INTERACTION_DELAY :: "real env_var"
  env_SCROLL_PROBABILITY :: "real env_var"
  env_CLICK_PROBABILITY :: "real env_var"
  env_TARGET_VIDEO_URL :: "string option"

definition getenv_num :: "'a env_var \<Rightarrow> 'a \<Rightarrow> py_error + 'a" where
  "getenv_num v d = (case v of Unset \<Rightarrow> Inr d | Parsed x \<Rightarrow> Inr x | Unparsable \<Rightarrow> Inl ValueError)"

definition getenv_str :: "string option \<Rightarrow> string \<Rightarrow> string" where
  "getenv_str v d = (case v of None \<Rightarrow> d | Some x \<Rightarrow> x)"

text \<open>
  The class body of \<open>Config\<close>, evaluated once at import: each attribute is the converted
  environment variable or its default. No attribute is compared with another or with a bound.
\<close>

definition load_config :: "environment \<Rightarrow> py_error + config" where
  "load_config env =
     (let target = getenv_str (env_TARGET_VIDEO_URL env) [] in
      bind_e (getenv_num (env_MIN_WATCH_TIME env) 30) (\<lambda>min_watch.
      bind_e (getenv_num (env_MAX_WATCH_TIME env) 300) (\<lambda>max_watch.
      bind_e (getenv_num (env_MIN_INTERACTION_DELAY env) (3 / 2)) (\<lambda>min_delay.
      bind_e (getenv_num (env_MAX_INTERACTION_DELAY env) 5) (\<lambda>max_delay.
      bind_e (getenv_num (env_SCROLL_PROBABILITY env) (3 / 10)) (\<lambda>scroll_p.
      bind_e (getenv_num (env_CLICK_PROBABILITY env) (2 / 10)) (\<lambda>click_p.
        Inr \<lparr>MIN_WATCH_TIME = min_watch, MAX_WATCH_TIME = max_watch,
             MIN_INTERACTION_DELAY = min_delay, MAX_INTERACTION_DELAY = max_delay,
             SCROLL_PROBABILITY = scroll_p, CLICK_PROBABILITY = click_p,
             TARGET_VIDEO_URL = target\<rparr>)))))))"

section \<open>utils.py\<close>

definition generate_random_delay :: "config \<Rightarrow> real option \<Rightarrow> real option \<Rightarrow> real \<Rightarrow> real" where
  "generate_random_delay cfg min_delay max_delay r =
     (let min_delay' = py_or min_delay (MIN_INTERACTION_DELAY cfg);
          max_delay' = py_or max_delay (MAX_INTERACTION_DELAY cfg)
      in uniform min_delay' max_delay' r)"

definition should_perform_action :: "real \<Rightarrow> real \<Rightarrow> bool" where
  "should_perform_action r probability \<longleftrightarrow> r < probability"

type_synonym point = "int \<times> int"

text \<open>A point whose coordinates have magnitude at most \<open>2 ^ k\<close>.\<close>

definition point_within :: "nat \<Rightarrow> point \<Rightarrow> bool" where
  "point_within k p \<longleftrightarrow> \<bar>fst p\<bar> \<le> 2 ^ k \<and> \<bar>snd p\<bar> \<le> 2 ^ k"

text \<open>
  One coordinate of the cubic Bezier formula, as the expression of \<open>_generate_bezier_curve\<close>
  evaluates it: \<open>**\<close> binds tighter than \<open>*\<close>, products and sums associate to the left, and
  an int operand is converted when its product is taken.
\<close>

definition bezier_coord ::
  "(real \<Rightarrow> nat \<Rightarrow> real) \<Rightarrow> pyfloat \<Rightarrow> int \<Rightarrow> int \<Rightarrow> int \<Rightarrow> int \<Rightarrow> py_error + pyfloat" where
  "bezier_coord pw t a b c d =
     bind_e (float_pow pw (fsub (Fin 1) t) 3) (\<lambda>u3.
     bind_e (float_of_int a) (\<lambda>fa.
     bind_e (float_pow pw (fsub (Fin 1) t) 2) (\<lambda>u2.
     bind_e (float_of_int b) (\<lambda>fb.
     bind_e (float_pow pw t 2) (\<lambda>t2.
     bind_e (float_of_int c) (\<lambda>fc.
     bind_e (float_pow pw t 3) (\<lambda>t3.
     bind_e (float_of_int d) (\<lambda>fd.
       Inr (fadd (fadd (fadd (fmul u3 fa)
                             (fmul (fmul (fmul (Fin 3) u2) t) fb))
                       (fmul (fmul (fmul (Fin 3) (fsub (Fin 1) t)) t2) fc))
                 (fmul t3 fd))))))))))"

text \<open>
  The body of the \<open>for t in range(steps)\<close> loop for the loop value \<open>i\<close>: \<open>t = i / steps\<close>,
  then \<open>x\<close>, then \<open>y\<close>, then the point \<open>(int(x), int(y))\<close>.
\<close>

definition bezier_point ::
  "(real \<Rightarrow> nat \<Rightarrow> real) \<Rightarrow> point \<Rightarrow> point \<Rightarrow> point \<Rightarrow> point \<Rightarrow> int \<Rightarrow> int \<Rightarrow> py_error + point" where
  "bezier_point pw p0 p1 p2 p3 i steps =
     bind_e (int_truediv i steps) (\<lambda>t.
     bind_e (bezier_coord pw t (fst p0) (fst p1) (fst p2) (fst p3)) (\<lambda>x.
     bind_e (bezier_coord pw t (snd p0) (snd p1) (snd p2) (snd p3)) (\<lambda>y.
     bind_e (py_int x) (\<lambda>ix.
     bind_e (py_int y) (\<lambda>iy.
       Inr (ix, iy))))))"

text \<open>
  The loop of \<open>_generate_bezier_curve\<close>: each point is appended in turn; an exception leaves
  the loop and the function.
\<close>

fun bezier_loop ::
  "(real \<Rightarrow> nat \<Rightarrow> real) \<Rightarrow> point \<Rightarrow> point \<Rightarrow> point \<Rightarrow> point \<Rightarrow> int \<Rightarrow> int list \<Rightarrow> point list
     \<Rightarrow> py_error + point list" where
  "bezier_loop pw p0 p1 p2 p3 steps [] points = Inr points"
| "bezier_loop pw p0 p1 p2 p3 steps (i # is) points =
     (case bezier_point pw p0 p1 p2 p3 i steps of
        Inl e \<Rightarrow> Inl e
      | Inr point \<Rightarrow> bezier_loop pw p0 p1 p2 p3 steps is (points @ [point]))"

definition generate_bezier_curve ::
  "(real \<Rightarrow> nat \<Rightarrow> real) \<Rightarrow> point \<Rightarrow> point \<Rightarrow> point \<Rightarrow> point \<Rightarrow> int \<Rightarrow> py_error + point list" where
  "generate_bezier_curve pw p0 p1 p2 p3 steps =
     bezier_loop pw p0 p1 p2 p3 steps (py_range steps) []"

text \<open>
  \<open>generate_human_like_mouse_movement\<close>. The four \<open>random.randint(-100, 100)\<close> calls that
  perturb the control points take their entropy from a \<open>jitter\<close>; the path is the Bezier
  curve from the start to the end coordinates through the two perturbed control points.
\<close>

record jitter =
  cp1_dx :: nat
  cp1_dy :: nat
  cp2_dx :: nat
  cp2_dy :: nat

definition control_point1 :: "point \<Rightarrow> jitter \<Rightarrow> point" where
  "control_point1 start_coords j =
     (fst start_coords + randint (- 100) 100 (cp1_dx j),
      snd start_coords + randint (- 100) 100 (cp1_dy j))"

definition control_point2 :: "point \<Rightarrow> jitter \<Rightarrow> point" where
  "control_point2 end_coords j =
     (fst end_coords + randint (- 100) 100 (cp2_dx j),
      snd end_coords + randint (- 100) 100 (cp2_dy j))"

definition motion_points ::
  "(real \<Rightarrow> nat \<Rightarrow> real) \<Rightarrow> point \<Rightarrow> point \<Rightarrow> int \<Rightarrow> jitter \<Rightarrow> py_error + point list" where
  "motion_points pw start_coords end_coords steps j =
     generate_bezier_curve pw start_coords (control_point1 start_coords j)
       (control_point2 end_coords j) end_coords steps"

subsection \<open>Effects and exceptions\<close>

text \<open>
  What the program does to the outside world is recorded as a list of effects, in order.
  A computation that may raise is a pair of the effects performed so far and either the
  exception or the result; \<open>try: ... except Exception: return d\<close> keeps the effects
  performed before the exception.
\<close>

datatype effect =
    Get string
  | ScrollBy int
  | MoveByOffset int int
  | Pause real
  | Click nat
  | SendKeys nat string
  | Sleep real

type_synonym 'a io = "effect list \<times> (py_error + 'a)"

definition io_return :: "'a \<Rightarrow> 'a io" where
  "io_return x = ([], Inr x)"

definition io_raise :: "py_error \<Rightarrow> 'a io" where
  "io_raise e = ([], Inl e)"

definition io_do :: "effect \<Rightarrow> unit io" where
  "io_do a = ([a], Inr ())"

definition io_bind :: "'a io \<Rightarrow> ('a \<Rightarrow> 'b io) \<Rightarrow> 'b io" where
  "io_bind m f =
     (case m of
        (tr, Inl e) \<Rightarrow> (tr, Inl e)
      | (tr, Inr x) \<Rightarrow> (case f x of (tr', r) \<Rightarrow> (tr @ tr', r)))"

definition try_except :: "'a io \<Rightarrow> 'a \<Rightarrow> effect list \<times> 'a" where
  "try_except m d = (case m of (tr, Inl e) \<Rightarrow> (tr, d) | (tr, Inr x) \<Rightarrow> (tr, x))"

definition io_of :: "effect list \<times> 'a \<Rightarrow> 'a io" where
  "io_of m = (fst m, Inr (snd m))"

definition io_lift :: "py_error + 'a \<Rightarrow> 'a io" where
  "io_lift r = ([], r)"

text \<open>\<open>time.sleep\<close> raises ValueError on a negative duration.\<close>

definition time_sleep :: "real \<Rightarrow> unit io" where
  "time_sleep d = (if d < 0 then io_raise ValueError else io_do (Sleep d))"

definition wait_random_delay :: "config \<Rightarrow> real option \<Rightarrow> real option \<Rightarrow> real \<Rightarrow> unit io" where
  "wait_random_delay cfg min_delay max_delay r =
     time_sleep (generate_random_delay cfg min_delay max_delay r)"

text \<open>
  The rest of \<open>generate_human_like_mouse_movement\<close>: each point is queued as a
  \<open>move_by_offset\<close> followed by a pause of \<open>random.uniform(0.001, 0.003)\<close>, and
  \<open>actions.perform()\<close> runs the queue or raises. \<open>libm_pow\<close> is the C library's \<open>pow\<close> of
  the platform the call runs on.
\<close>

record move_env =
  libm_pow :: "real \<Rightarrow> nat \<Rightarrow> real"
  move_jitter :: jitter
  move_pauses :: "nat \<Rightarrow> real"
  perform_raises :: bool

fun queue_moves :: "(nat \<Rightarrow> real) \<Rightarrow> nat \<Rightarrow> point list \<Rightarrow> effect list" where
  "queue_moves ps i [] = []"
| "queue_moves ps i (point # points) =
     MoveByOffset (fst point) (snd point) # Pause (uniform (1 / 1000) (3 / 1000) (ps i))
       # queue_moves ps (Suc i) points"

definition generate_human_like_mouse_movement :: "move_env \<Rightarrow> point \<Rightarrow> point \<Rightarrow> int \<Rightarrow> unit io" where
  "generate_human_like_mouse_movement me start_coords end_coords steps =
     io_bind (io_lift (motion_points (libm_pow me) start_coords end_coords steps (move_jitter me)))
       (\<lambda>points.
          let queued = queue_moves (move_pauses me) 0 points
          in if perform_raises me then io_raise WebDriverException else (queued, Inr ()))"

section \<open>automation.py\<close>

text \<open>
  The browser is an external collaborator. Its answers are inputs of the model: an element
  is its geometry and whether reading it, clicking it or typing into it raises; an
  environment record holds, for one call, the entropy the call consumes and the browser's
  answers during it.
\<close>

record element =
  el_id :: nat
  location_x :: int
  location_y :: int
  size_width :: int
  size_height :: int
  stale :: bool
  click_raises :: bool
  send_keys_raises :: bool

record click_env =
  click_dx :: nat
  click_dy :: nat
  mouse_script :: "point option"
  click_move :: move_env
  click_delay :: real

record tick_env =
  scroll_gate :: real
  scroll_seed :: nat
  scroll_raises :: bool
  scroll_delay :: real
  click_gate :: real
  safe_elements :: "element list option"
  choice_seed :: nat
  tick_click :: click_env
  interval_seed :: nat
  interval_delay :: real

record session_env =
  get_raises :: bool
  nav_delay :: real
  wait_until :: "string \<Rightarrow> py_error + element"
  watch_seed :: nat
  focus_click :: click_env
  play_delay1 :: real
  play_delay2 :: real
  ticks :: "nat \<Rightarrow> tick_env"

definition navigate_to_url :: "config \<Rightarrow> session_env \<Rightarrow> string \<Rightarrow> effect list \<times> bool" where
  "navigate_to_url cfg env url =
     try_except
       (io_bind (if get_raises env then io_raise WebDriverException else io_do (Get url)) (\<lambda>_.
        io_bind (wait_random_delay cfg (Some 2) (Some 4) (nav_delay env)) (\<lambda>_.
        io_return True)))
       False"

definition get_current_mouse_position :: "point option \<Rightarrow> point" where
  "get_current_mouse_position script = (case script of Some p \<Rightarrow> p | None \<Rightarrow> (0, 0))"

definition element_click :: "element \<Rightarrow> unit io" where
  "element_click el = (if click_raises el then io_raise WebDriverException else io_do (Click (el_id el)))"

definition simulate_click :: "config \<Rightarrow> click_env \<Rightarrow> element \<Rightarrow> effect list \<times> bool" where
  "simulate_click cfg ce el =
     try_except
       (io_bind (if stale el then io_raise WebDriverException else io_return ()) (\<lambda>_.
        io_bind (io_lift (randint_checked 5 (size_width el - 5) (click_dx ce))) (\<lambda>rx.
        io_bind (io_lift (randint_checked 5 (size_height el - 5) (click_dy ce))) (\<lambda>ry.
        let click_x = location_x el + rx;
            click_y = location_y el + ry;
            current_mouse = get_current_mouse_position (mouse_script ce)
        in
        io_bind (generate_human_like_mouse_movement (click_move ce) current_mouse (click_x, click_y) 25) (\<lambda>_.
        io_bind (element_click el) (\<lambda>_.
        io_bind (wait_random_delay cfg (Some (1 / 10)) (Some (3 / 10)) (click_delay ce)) (\<lambda>_.
        io_return True)))))))
       False"

definition video_selectors :: "string list" where
  "video_selectors = [''video'', ''iframe[src*='youtube']'', ''iframe[src*='vimeo']'', ''#movie_player'']"

text \<open>
  The selector loop of \<open>_find_video_element\<close>: the first selector whose wait returns an
  element wins, a TimeoutException moves on to the next selector, any other exception leaves
  the loop.
\<close>

fun try_selectors :: "(string \<Rightarrow> py_error + element) \<Rightarrow> string list \<Rightarrow> py_error + element option" where
  "try_selectors until [] = Inr None"
| "try_selectors until (selector # selectors) =
     (case until selector of
        Inr element \<Rightarrow> Inr (Some element)
      | Inl e \<Rightarrow> if e = TimeoutException then try_selectors until selectors else Inl e)"

definition find_video_element :: "session_env \<Rightarrow> element option" where
  "find_video_element env =
     (case try_selectors (wait_until env) video_selectors of Inl e \<Rightarrow> None | Inr found \<Rightarrow> found)"

definition element_send_keys :: "element \<Rightarrow> string \<Rightarrow> unit io" where
  "element_send_keys el keys =
     (if send_keys_raises el then io_raise WebDriverException else io_do (SendKeys (el_id el) keys))"

definition ensure_video_playing :: "config \<Rightarrow> session_env \<Rightarrow> element \<Rightarrow> effect list \<times> bool" where
  "ensure_video_playing cfg env video_element =
     try_except
       (io_bind (io_of (simulate_click cfg (focus_click env) video_element)) (\<lambda>_.
        io_bind (wait_random_delay cfg None None (play_delay1 env)) (\<lambda>_.
        io_bind (element_send_keys video_element '' '') (\<lambda>_.
        io_bind (wait_random_delay cfg None None (play_delay2 env)) (\<lambda>_.
        io_return True)))))
       False"

definition perform_random_scroll :: "config \<Rightarrow> tick_env \<Rightarrow> effect list \<times> unit" where
  "perform_random_scroll cfg te =
     try_except
       (let scroll_amount = randint (- 300) 300 (scroll_seed te) in
        io_bind (if scroll_raises te then io_raise WebDriverException else io_do (ScrollBy scroll_amount)) (\<lambda>_.
        wait_random_delay cfg None None (scroll_delay te)))
       ()"

definition perform_random_click :: "config \<Rightarrow> tick_env \<Rightarrow> effect list \<times> unit" where
  "perform_random_click cfg te =
     try_except
       (case safe_elements te of
          None \<Rightarrow> io_raise WebDriverException
        | Some elements \<Rightarrow>
            if elements \<noteq> [] then
              let element = elements ! (choice_seed te mod length elements) in
              io_bind (io_of (simulate_click cfg (tick_click te) element)) (\<lambda>_. io_return ())
            else io_return ())
       ()"

text \<open>
  The \<open>while start_time < watch_time\<close> loop of \<open>simulate_video_watching\<close>; \<open>n\<close> counts the
  iterations and selects the tick's environment. The loop returns the final \<open>start_time\<close>.
\<close>

function watch_loop :: "config \<Rightarrow> (nat \<Rightarrow> tick_env) \<Rightarrow> int \<Rightarrow> nat \<Rightarrow> int \<Rightarrow> int io" where
  "watch_loop cfg env watch_time n start_time =
     (if start_time < watch_time then
        io_bind (if should_perform_action (scroll_gate (env n)) (SCROLL_PROBABILITY cfg)
                 then io_of (perform_random_scroll cfg (env n)) else io_return ()) (\<lambda>_.
        io_bind (if should_perform_action (click_gate (env n)) (CLICK_PROBABILITY cfg)
                 then io_of (perform_random_click cfg (env n)) else io_return ()) (\<lambda>_.
        let interval = min (randint 5 15 (interval_seed (env n))) (watch_time - start_time) in
        io_bind (wait_random_delay cfg (Some (real_of_int interval)) (Some (real_of_int (interval + 2)))
                   (interval_delay (env n))) (\<lambda>_.
        watch_loop cfg env watch_time (Suc n) (start_time + interval))))
      else io_return start_time)"
  by pat_completeness auto
termination
  by (relation "measure (\<lambda>(cfg, env, watch_time, n, start_time). nat (watch_time - start_time))")
    (auto simp: randint_def)

declare watch_loop.simps [simp del]

definition simulate_video_watching :: "config \<Rightarrow> session_env \<Rightarrow> string \<Rightarrow> int option \<Rightarrow> effect list \<times> bool" where
  "simulate_video_watching cfg env url watch_time =
     try_except
       (io_bind (io_of (navigate_to_url cfg env url)) (\<lambda>navigated.
        if \<not> navigated then io_return False
        else
          case find_video_element env of
            None \<Rightarrow> io_return False
          | Some video_element \<Rightarrow>
              io_bind (case watch_time of
                         None \<Rightarrow> io_lift (randint_checked (MIN_WATCH_TIME cfg) (MAX_WATCH_TIME cfg) (watch_seed env))
                       | Some w \<Rightarrow> io_return w) (\<lambda>watch_time'.
              io_bind (io_of (ensure_video_playing cfg env video_element)) (\<lambda>_.
              io_bind (watch_loop cfg (ticks env) watch_time' 0 0) (\<lambda>_.
              io_return True)))))
       False"

section \<open>socionator_integration.py\<close>

record interactions =
  clicks :: int
  scrolls :: int
  pauses :: int

text \<open>
  A request posted to the telemetry endpoint: an engagement event (event type, video URL,
  metadata) or a watch-session report (video URL, watch time, interaction counts, proxy).
  The timestamps of the payloads are left out. \<open>post_status\<close> is the status code the
  endpoint answers with, \<open>None\<close> when the request raises.
\<close>

datatype telemetry =
    EngagementEvent string string "(string \<times> string) list"
  | WatchSession string int interactions "string option"

record socionator_api =
  api_key :: string
  post_status :: "int option"

definition send_engagement_event ::
  "socionator_api \<Rightarrow> string \<Rightarrow> string \<Rightarrow> (string \<times> string) list \<Rightarrow> telemetry list \<times> bool" where
  "send_engagement_event api event_type video_url metadata =
     (if api_key api = [] then ([], False)
      else ([EngagementEvent event_type video_url metadata], post_status api = Some 201))"

definition send_watch_session ::
  "socionator_api \<Rightarrow> string \<Rightarrow> int \<Rightarrow> interactions \<Rightarrow> string option \<Rightarrow> telemetry list \<times> bool" where
  "send_watch_session api video_url watch_time counts proxy_used =
     ([WatchSession video_url watch_time counts proxy_used], post_status api = Some 201)"

section \<open>main.py\<close>

text \<open>\<open>session_data\<close>; its \<open>'start_time'\<close> entry is the field \<open>started_at\<close>.\<close>

record session_data =
  started_at :: "int option"
  interactions :: interactions

record video_watcher =
  args_url :: "string option"
  args_watch_time :: "int option"
  args_custom_proxy :: "string option"
  tor_manager :: bool
  socionator :: "socionator_api option"
  session_data :: session_data

text \<open>\<open>VideoWatcher.__init__\<close>: no proxy manager, no telemetry client, all counters zero.\<close>

definition VideoWatcher_init :: "string option \<Rightarrow> int option \<Rightarrow> string option \<Rightarrow> video_watcher" where
  "VideoWatcher_init url watch_time custom_proxy =
     \<lparr>args_url = url, args_watch_time = watch_time, args_custom_proxy = custom_proxy,
      tor_manager = False, socionator = None,
      session_data = \<lparr>started_at = None, interactions = \<lparr>clicks = 0, scrolls = 0, pauses = 0\<rparr>\<rparr>\<rparr>"

definition report_session_completion :: "video_watcher \<Rightarrow> string \<Rightarrow> int \<Rightarrow> telemetry list" where
  "report_session_completion w video_url now =
     (case socionator w of
        None \<Rightarrow> []
      | Some api \<Rightarrow>
          let watch_time = now - (case started_at (session_data w) of Some t \<Rightarrow> t | None \<Rightarrow> 0) in
          fst (send_watch_session api video_url watch_time (interactions (session_data w))
                 (if tor_manager w then Some ''tor'' else args_custom_proxy w)))"

definition report_session_error :: "video_watcher \<Rightarrow> string \<Rightarrow> string \<Rightarrow> telemetry list" where
  "report_session_error w video_url error_message =
     (case socionator w of
        None \<Rightarrow> []
      | Some api \<Rightarrow> fst (send_engagement_event api ''session_error'' video_url [(''error'', error_message)]))"

record session_outcome =
  returned :: bool
  watcher :: video_watcher
  posted :: "telemetry list"
  effects :: "effect list"

text \<open>
  \<open>VideoWatcher.run_session\<close>, called once \<open>initialize_components\<close> has installed the
  browser. \<open>clock_start\<close> and \<open>clock_end\<close> are the two readings of \<open>int(time.time())\<close>.
  Every callee catches its own exceptions, so the outer \<open>except\<close> clause is not entered.
\<close>

definition run_session :: "config \<Rightarrow> video_watcher \<Rightarrow> session_env \<Rightarrow> int \<Rightarrow> int \<Rightarrow> session_outcome" where
  "run_session cfg w env clock_start clock_end =
     (let w' = w\<lparr>session_data := (session_data w)\<lparr>started_at := Some clock_start\<rparr>\<rparr>;
          video_url = py_or_str (args_url w) (TARGET_VIDEO_URL cfg)
      in
      if video_url = [] then \<lparr>returned = False, watcher = w', posted = [], effects = []\<rparr>
      else
        let started = (case socionator w' of
                         None \<Rightarrow> []
                       | Some api \<Rightarrow>
                           fst (send_engagement_event api ''session_start'' video_url
                                  [(''proxy_type'', if tor_manager w' then ''tor'' else ''custom'')]));
            sim = simulate_video_watching cfg env video_url (args_watch_time w')
        in
        if snd sim then
          \<lparr>returned = True, watcher = w',
           posted = started @ report_session_completion w' video_url clock_end, effects = fst sim\<rparr>
        else
          \<lparr>returned = False, watcher = w',
           posted = started @ report_session_error w' video_url ''Simulation failed'', effects = fst sim\<rparr>)"

section \<open>Scenarios\<close>

text \<open>
  Concrete inputs for the end-to-end scenarios: a browser that finds the video player under
  every selector and never raises, a browser whose element lookup times out under every
  selector, ticks whose interval draw is always 5 seconds, and a watcher with a telemetry
  client after \<open>initialize_components\<close>.
\<close>

definition scenario_config :: config where
  "scenario_config = default_config\<lparr>SCROLL_PROBABILITY := 1, CLICK_PROBABILITY := 0\<rparr>"

definition video_player :: element where
  "video_player =
     \<lparr>el_id = 0, location_x = 100, location_y = 100, size_width = 640, size_height = 360,
      stale = False, click_raises = False, send_keys_raises = False\<rparr>"

definition still_jitter :: jitter where
  "still_jitter = \<lparr>cp1_dx = 100, cp1_dy = 100, cp2_dx = 100, cp2_dy = 100\<rparr>"

definition still_move :: move_env where
  "still_move =
     \<lparr>libm_pow = reference_pow, move_jitter = still_jitter, move_pauses = (\<lambda>i. 0),
      perform_raises = False\<rparr>"

definition still_click :: click_env where
  "still_click =
     \<lparr>click_dx = 0, click_dy = 0, mouse_script = None, click_move = still_move, click_delay = 0\<rparr>"

definition fixed_tick :: tick_env where
  "fixed_tick =
     \<lparr>scroll_gate = 1 / 2, scroll_seed = 350, scroll_raises = False, scroll_delay = 0,
      click_gate = 1 / 2, safe_elements = Some [], choice_seed = 0, tick_click = still_click,
      interval_seed = 0, interval_delay = 0\<rparr>"

definition found_env :: session_env where
  "found_env =
     \<lparr>get_raises = False, nav_delay = 0, wait_until = (\<lambda>selector. Inr video_player),
      watch_seed = 0, focus_click = still_click, play_delay1 = 0, play_delay2 = 0,
      ticks = (\<lambda>n. fixed_tick)\<rparr>"

definition timeout_env :: session_env where
  "timeout_env = found_env\<lparr>wait_until := (\<lambda>selector. Inl TimeoutException)\<rparr>"

definition scenario_url :: string where
  "scenario_url = ''https://example.com/v1''"

definition scenario_watcher :: video_watcher where
  "scenario_watcher =
     (VideoWatcher_init (Some scenario_url) (Some 20) None)
       \<lparr>tor_manager := True, socionator := Some \<lparr>api_key = ''key'', post_status = Some 201\<rparr>\<rparr>"

text \<open>The number of scroll scripts and of element clicks among the effects.\<close>

fun is_scroll :: "effect \<Rightarrow> bool" where
  "is_scroll (ScrollBy n) = True"
| "is_scroll _ = False"

fun is_click :: "effect \<Rightarrow> bool" where
  "is_click (Click i) = True"
| "is_click _ = False"

section \<open>Rounding to the nearest double\<close>

lemma int_le_pow2_real: "n \<le> 2 ^ k \<Longrightarrow> real_of_int n \<le> 2 ^ k"
  by simp

lemma pow2_le_int_real: "2 ^ k \<le> n \<Longrightarrow> (2::real) ^ k \<le> real_of_int n"
  by simp

lemma floor_log2_bounds:
  assumes "0 < x"
  shows "2 powi floor_log2 x \<le> x \<and> x < 2 powi (floor_log2 x + 1)"
proof (cases "1 \<le> x")
  case True
  define n where "n = \<lfloor>x\<rfloor>"
  have n: "0 < n" "of_int n \<le> x" "x < of_int n + 1"
    using True by (simp_all add: n_def)
  have b: "2 ^ nat (bitlen n - 1) \<le> n" "n < 2 ^ nat (bitlen n)"
    using bitlen_bounds [OF n(1)] by simp_all
  have pos: "0 < bitlen n"
    using n(1) bitlen_nonneg [of n] bitlen_eq_zero_iff [of n] by linarith
  have fl: "floor_log2 x = bitlen n - 1"
    using True by (simp add: floor_log2_def n_def)
  have p1: "(2::real) powi (bitlen n - 1) = 2 ^ nat (bitlen n - 1)"
    using pos by (simp add: power_int_def)
  have p2: "(2::real) powi (bitlen n - 1 + 1) = 2 ^ nat (bitlen n)"
    using pos by (simp add: power_int_def)
  have "(2::real) ^ nat (bitlen n - 1) = real_of_int (2 ^ nat (bitlen n - 1))"
    by simp
  also have "\<dots> \<le> real_of_int n"
    using b(1) by (simp only: of_int_le_iff)
  also have "\<dots> \<le> x"
    by (rule n(2))
  finally have lo: "(2::real) ^ nat (bitlen n - 1) \<le> x" .
  have "n + 1 \<le> 2 ^ nat (bitlen n)"
    using b(2) by simp
  then have "real_of_int (n + 1) \<le> real_of_int (2 ^ nat (bitlen n))"
    by (simp only: of_int_le_iff)
  also have "\<dots> = (2::real) ^ nat (bitlen n)"
    by simp
  finally have hi: "x < 2 ^ nat (bitlen n)"
    using n(3) by simp
  show ?thesis
    unfolding fl p1 p2 using lo hi by simp
next
  case False
  define y where "y = 1 / x"
  define c where "c = \<lceil>y\<rceil>"
  have y: "1 < y" "x = 1 / y" "0 < y"
    using False assms by (simp_all add: y_def)
  have c: "y \<le> of_int c" "of_int c - 1 < y" "0 < c - 1"
    using y(1) by (simp_all add: c_def) linarith+
  have b: "2 ^ nat (bitlen (c - 1) - 1) \<le> c - 1" "c - 1 < 2 ^ nat (bitlen (c - 1))"
    using bitlen_bounds [OF c(3)] by simp_all
  have pos: "0 < bitlen (c - 1)"
    using c(3) bitlen_nonneg [of "c - 1"] bitlen_eq_zero_iff [of "c - 1"] by linarith
  have fl: "floor_log2 x = - bitlen (c - 1)"
    using False by (simp add: floor_log2_def c_def y_def)
  have up: "y \<le> 2 ^ nat (bitlen (c - 1))"
  proof -
    have "c \<le> 2 ^ nat (bitlen (c - 1))" using b(2) by simp
    then have "real_of_int c \<le> 2 ^ nat (bitlen (c - 1))"
      by (rule int_le_pow2_real)
    then show ?thesis using c(1) by linarith
  qed
  have lo: "2 ^ nat (bitlen (c - 1) - 1) < y"
  proof -
    have "(2::real) ^ nat (bitlen (c - 1) - 1) \<le> real_of_int (c - 1)"
      using b(1) by (rule pow2_le_int_real)
    then show ?thesis using c(2) by simp
  qed
  have p1: "(2::real) powi (- bitlen (c - 1)) = 1 / 2 ^ nat (bitlen (c - 1))"
    using pos by (simp add: power_int_def field_simps)
  have p2: "(2::real) powi (- bitlen (c - 1) + 1) = 1 / 2 ^ nat (bitlen (c - 1) - 1)"
    using pos by (simp add: power_int_def field_simps nat_diff_distrib)
  have "1 / 2 ^ nat (bitlen (c - 1)) \<le> 1 / y"
    using up y(3) by (simp add: frac_le)
  then have lower: "1 / 2 ^ nat (bitlen (c - 1)) \<le> x"
    by (simp add: y(2))
  have "1 / y < 1 / 2 ^ nat (bitlen (c - 1) - 1)"
    using lo by (simp add: frac_less2)
  then have upper: "x < 1 / 2 ^ nat (bitlen (c - 1) - 1)"
    by (simp add: y(2))
  show ?thesis
    unfolding fl p1 p2 using lower upper by simp
qed

lemma round_half_even_of_int: "round_half_even (of_int m) = m"
  by (simp add: round_half_even_def)

lemma round_half_even_bounds: "\<lfloor>r\<rfloor> \<le> round_half_even r \<and> round_half_even r \<le> \<lceil>r\<rceil>"
proof (cases "r = of_int \<lfloor>r\<rfloor>")
  case True
  then have "round_half_even r = \<lfloor>r\<rfloor>"
    by (metis round_half_even_of_int)
  then show ?thesis
    by simp
next
  case False
  then have "\<lceil>r\<rceil> = \<lfloor>r\<rfloor> + 1"
    by (metis ceiling_altdef)
  then show ?thesis
    by (simp add: round_half_even_def Let_def)
qed


lemma floor_log2_le:
  assumes "0 < x" and "x \<le> 2 powi k"
  shows "floor_log2 x \<le> k"
proof (rule ccontr)
  assume "\<not> floor_log2 x \<le> k"
  then have "(2::real) powi k < 2 powi floor_log2 x"
    by (intro power_int_strict_increasing) simp_all
  then show False
    using floor_log2_bounds [OF assms(1)] assms(2) by linarith
qed


lemma ulp_exponent_le:
  assumes "x \<noteq> 0" and "\<bar>x\<bar> \<le> 2 powi k" and "- 1074 \<le> k"
  shows "ulp_exponent x \<le> k"
  using floor_log2_le [of "\<bar>x\<bar>" k] assms by (simp add: ulp_exponent_def)


lemma round_double_upper:
  assumes "x \<le> of_int N * 2 powi j" and "x \<noteq> 0 \<longrightarrow> ulp_exponent x \<le> j"
  shows "round_double x \<le> of_int N * 2 powi j"
proof (cases "x = 0")
  case True
  then show ?thesis
    using assms(1) by (simp add: round_double_def)
next
  case False
  define e where "e = ulp_exponent x"
  define d where "d = nat (j - e)"
  have j: "j = e + int d"
    using assms(2) False by (simp add: d_def e_def)
  have split: "(2::real) powi j = 2 powi e * 2 ^ d"
    unfolding j by (simp add: power_int_add)
  have pos: "(0::real) < 2 powi e"
    by simp
  have "x / 2 powi e \<le> of_int N * 2 ^ d"
    using assms(1) pos unfolding split by (simp add: field_simps)
  also have "of_int N * (2::real) ^ d = of_int (N * 2 ^ d)"
    by simp
  finally have "\<lceil>x / 2 powi e\<rceil> \<le> N * 2 ^ d"
    by (simp only: ceiling_le_iff)
  then have "round_half_even (x / 2 powi e) \<le> N * 2 ^ d"
    using round_half_even_bounds [of "x / 2 powi e"] by linarith
  then have "real_of_int (round_half_even (x / 2 powi e)) \<le> real_of_int (N * 2 ^ d)"
    by (simp only: of_int_le_iff)
  then have "real_of_int (round_half_even (x / 2 powi e)) * 2 powi e \<le> real_of_int (N * 2 ^ d) * 2 powi e"
    using pos by (simp only: mult_le_cancel_right_pos)
  then show ?thesis
    using False unfolding split by (simp add: round_double_def e_def mult_ac)
qed

lemma round_double_lower:
  assumes "of_int N * 2 powi j \<le> x" and "x \<noteq> 0 \<longrightarrow> ulp_exponent x \<le> j"
  shows "of_int N * 2 powi j \<le> round_double x"
proof (cases "x = 0")
  case True
  then show ?thesis
    using assms(1) by (simp add: round_double_def)
next
  case False
  define e where "e = ulp_exponent x"
  define d where "d = nat (j - e)"
  have j: "j = e + int d"
    using assms(2) False by (simp add: d_def e_def)
  have split: "(2::real) powi j = 2 powi e * 2 ^ d"
    unfolding j by (simp add: power_int_add)
  have pos: "(0::real) < 2 powi e"
    by simp
  have "of_int (N * 2 ^ d) = of_int N * (2::real) ^ d"
    by simp
  also have "\<dots> \<le> x / 2 powi e"
    using assms(1) pos unfolding split by (simp add: field_simps)
  finally have "N * 2 ^ d \<le> \<lfloor>x / 2 powi e\<rfloor>"
    by (simp only: le_floor_iff)
  then have "N * 2 ^ d \<le> round_half_even (x / 2 powi e)"
    using round_half_even_bounds [of "x / 2 powi e"] by linarith
  then have "real_of_int (N * 2 ^ d) \<le> real_of_int (round_half_even (x / 2 powi e))"
    by (simp only: of_int_le_iff)
  then have "real_of_int (N * 2 ^ d) * 2 powi e \<le> real_of_int (round_half_even (x / 2 powi e)) * 2 powi e"
    using pos by (simp only: mult_le_cancel_right_pos)
  then show ?thesis
    using False unfolding split by (simp add: round_double_def e_def mult_ac)
qed


lemma round_double_abs_le:
  assumes "\<bar>x\<bar> \<le> 2 powi k" and "- 1074 \<le> k"
  shows "\<bar>round_double x\<bar> \<le> 2 powi k"
proof -
  have e: "x \<noteq> 0 \<longrightarrow> ulp_exponent x \<le> k"
    using assms ulp_exponent_le by blast
  have "round_double x \<le> of_int 1 * 2 powi k"
    using assms(1) e by (intro round_double_upper) simp_all
  moreover have "of_int (- 1) * 2 powi k \<le> round_double x"
    using assms(1) e by (intro round_double_lower) simp_all
  ultimately show ?thesis
    by simp
qed

lemma round_double_nonneg:
  assumes "0 \<le> x"
  shows "0 \<le> round_double x"
  using round_double_lower [of 0 "ulp_exponent x" x] assms by simp

lemma round_double_nonpos:
  assumes "x \<le> 0"
  shows "round_double x \<le> 0"
  using round_double_upper [of x 0 "ulp_exponent x"] assms by simp



section \<open>Finite floats\<close>

lemma pow2_less_huge: "k < 1024 \<Longrightarrow> 2 ^ k < huge"
  unfolding huge_def by (intro power_strict_increasing) simp_all

lemma fl_finite:
  assumes "\<bar>r\<bar> < huge"
  shows "(let r' = r in if huge \<le> r' then PosInf else if r' \<le> - huge then NegInf else Fin r') = Fin r"
  using assms by (simp add: Let_def abs_if split: if_splits)

lemma fl_within:
  assumes "\<bar>x\<bar> \<le> 2 ^ k" and "k < 1024"
  shows "fl x = Fin (round_double x) \<and> \<bar>round_double x\<bar> \<le> 2 ^ k"
proof -
  have "\<bar>round_double x\<bar> \<le> 2 powi int k"
    using assms(1) by (intro round_double_abs_le) simp_all
  then have b: "\<bar>round_double x\<bar> \<le> 2 ^ k"
    by simp
  then have "\<bar>round_double x\<bar> < huge"
    using pow2_less_huge [OF assms(2)] by linarith
  then show ?thesis
    using b fl_finite [of "round_double x"] by (simp add: fl_def)
qed



lemma finite_within_Fin: "finite_within k (Fin a) \<longleftrightarrow> \<bar>a\<bar> \<le> 2 ^ k"
  by (simp add: finite_within_def)

lemma finite_withinE:
  assumes "finite_within k x"
  obtains a where "x = Fin a" and "\<bar>a\<bar> \<le> 2 ^ k"
  using assms by (cases x) (simp_all add: finite_within_def)

lemma fmul_within:
  assumes "finite_within j x" and "finite_within k y" and "j + k < 1024"
  shows "finite_within (j + k) (fmul x y)"
proof -
  obtain a where a: "x = Fin a" "\<bar>a\<bar> \<le> 2 ^ j"
    using assms(1) by (rule finite_withinE)
  obtain b where b: "y = Fin b" "\<bar>b\<bar> \<le> 2 ^ k"
    using assms(2) by (rule finite_withinE)
  have "\<bar>a * b\<bar> \<le> 2 ^ j * 2 ^ k"
    unfolding abs_mult using a(2) b(2) by (intro mult_mono) simp_all
  then have "\<bar>a * b\<bar> \<le> 2 ^ (j + k)"
    by (simp add: power_add)
  then show ?thesis
    using fl_within [of "a * b" "j + k"] assms(3) by (simp add: a(1) b(1) finite_within_Fin)
qed

lemma fadd_within:
  assumes "finite_within k x" and "finite_within k y" and "Suc k < 1024"
  shows "finite_within (Suc k) (fadd x y)"
proof -
  obtain a where a: "x = Fin a" "\<bar>a\<bar> \<le> 2 ^ k"
    using assms(1) by (rule finite_withinE)
  obtain b where b: "y = Fin b" "\<bar>b\<bar> \<le> 2 ^ k"
    using assms(2) by (rule finite_withinE)
  have "\<bar>a + b\<bar> \<le> 2 ^ Suc k"
    using a(2) b(2) by simp
  then show ?thesis
    using fl_within [of "a + b" "Suc k"] assms(3) by (simp add: a(1) b(1) finite_within_Fin)
qed

lemma finite_within_mono:
  assumes "finite_within j x" and "j \<le> k"
  shows "finite_within k x"
proof -
  obtain a where a: "x = Fin a" "\<bar>a\<bar> \<le> 2 ^ j"
    using assms(1) by (rule finite_withinE)
  have "(2::real) ^ j \<le> 2 ^ k"
    using assms(2) by (intro power_increasing) simp_all
  then have "\<bar>a\<bar> \<le> 2 ^ k"
    using a(2) by linarith
  then show ?thesis
    using a(1) by (simp add: finite_within_Fin)
qed

lemma float_of_int_within:
  assumes "\<bar>n\<bar> \<le> 2 ^ k" and "k < 1024"
  shows "\<exists>f. float_of_int n = Inr f \<and> finite_within k f"
proof -
  have "\<bar>real_of_int n\<bar> \<le> 2 ^ k"
    using assms(1) by (simp flip: of_int_abs)
  then have r: "\<bar>round_double (of_int n)\<bar> \<le> 2 ^ k"
    using fl_within [of "of_int n" k] assms(2) by simp
  have "\<not> huge \<le> \<bar>round_double (of_int n)\<bar>"
    using r pow2_less_huge [OF assms(2)] by linarith
  then show ?thesis
    using r by (simp add: float_of_int_def Let_def finite_within_Fin)
qed


section \<open>Floats in the unit interval\<close>

lemma unit_round:
  assumes "0 \<le> x" and "x \<le> 1"
  shows "fl x = Fin (round_double x) \<and> 0 \<le> round_double x \<and> round_double x \<le> 1"
  using fl_within [of x 0] round_double_nonneg [OF assms(1)] assms by simp

lemma int_truediv_unit:
  assumes "0 \<le> i" and "i < steps"
  shows "\<exists>t. int_truediv i steps = Inr (Fin t) \<and> 0 \<le> t \<and> t \<le> 1"
proof -
  have q: "0 \<le> real_of_int i / real_of_int steps" "real_of_int i / real_of_int steps \<le> 1"
    using assms by simp_all
  have r: "0 \<le> round_double (real_of_int i / real_of_int steps)"
    "round_double (real_of_int i / real_of_int steps) \<le> 1"
    using unit_round [OF q] by simp_all
  then have "\<not> huge \<le> \<bar>round_double (real_of_int i / real_of_int steps)\<bar>"
    using pow2_less_huge [of 0] by simp
  then show ?thesis
    using assms r by (simp add: int_truediv_def Let_def)
qed

lemma one_minus_unit:
  assumes "0 \<le> t" and "t \<le> 1"
  shows "\<exists>u. fsub (Fin 1) (Fin t) = Fin u \<and> 0 \<le> u \<and> u \<le> 1"
  using unit_round [of "1 - t"] assms by (simp add: fsub_def)

lemma float_pow_unit:
  assumes "pow_in_unit pw" and "0 \<le> a" and "a \<le> 1" and "0 < n"
  shows "\<exists>r. float_pow pw (Fin a) n = Inr (Fin r) \<and> 0 \<le> r \<and> r \<le> 1"
proof -
  have p: "0 \<le> pw a n \<and> pw a n \<le> 1"
    using assms by (simp add: pow_in_unit_def)
  then have "\<not> huge \<le> \<bar>pw a n\<bar>" "\<not> huge \<le> 1"
    using pow2_less_huge [of 0] by simp_all
  then show ?thesis
    using assms(2,4) p by (simp add: float_pow_def Let_def)
qed

lemma pow_in_unit_reference: "pow_in_unit reference_pow"
proof -
  have "0 \<le> round_double (x ^ n) \<and> round_double (x ^ n) \<le> 1" if "0 \<le> x" "x \<le> 1" for x :: real and n
  proof -
    have "0 \<le> x ^ n" "x ^ n \<le> 1"
      using that by (simp_all add: power_le_one)
    then show ?thesis
      using unit_round by blast
  qed
  then show ?thesis
    by (simp add: pow_in_unit_def reference_pow_def)
qed

section \<open>The Bezier computation returns\<close>

lemma unit_within: "0 \<le> r \<Longrightarrow> r \<le> 1 \<Longrightarrow> finite_within 0 (Fin r)"
  by (simp add: finite_within_Fin)

lemma three_within: "finite_within 2 (Fin 3)"
  by (simp add: finite_within_Fin)

lemma bezier_coord_finite:
  assumes pw: "pow_in_unit pw" and t: "0 \<le> t" "t \<le> 1"
    and a: "\<bar>a\<bar> \<le> 2 ^ 62" and b: "\<bar>b\<bar> \<le> 2 ^ 62" and c: "\<bar>c\<bar> \<le> 2 ^ 62" and d: "\<bar>d\<bar> \<le> 2 ^ 62"
  shows "\<exists>r. bezier_coord pw (Fin t) a b c d = Inr (Fin r)"
proof -
  obtain u where u: "fsub (Fin 1) (Fin t) = Fin u" "0 \<le> u" "u \<le> 1"
    using one_minus_unit [OF t] by blast
  obtain u3 where u3: "float_pow pw (Fin u) 3 = Inr (Fin u3)" "0 \<le> u3" "u3 \<le> 1"
    using float_pow_unit [OF pw u(2,3), of 3] by auto
  obtain u2 where u2: "float_pow pw (Fin u) 2 = Inr (Fin u2)" "0 \<le> u2" "u2 \<le> 1"
    using float_pow_unit [OF pw u(2,3), of 2] by auto
  obtain t2 where t2: "float_pow pw (Fin t) 2 = Inr (Fin t2)" "0 \<le> t2" "t2 \<le> 1"
    using float_pow_unit [OF pw t, of 2] by auto
  obtain t3 where t3: "float_pow pw (Fin t) 3 = Inr (Fin t3)" "0 \<le> t3" "t3 \<le> 1"
    using float_pow_unit [OF pw t, of 3] by auto
  obtain fa where fa: "float_of_int a = Inr fa" "finite_within 62 fa"
    using float_of_int_within [OF a] by auto
  obtain fb where fb: "float_of_int b = Inr fb" "finite_within 62 fb"
    using float_of_int_within [OF b] by auto
  obtain fc where fc: "float_of_int c = Inr fc" "finite_within 62 fc"
    using float_of_int_within [OF c] by auto
  obtain fd where fd: "float_of_int d = Inr fd" "finite_within 62 fd"
    using float_of_int_within [OF d] by auto
  have "finite_within 62 (fmul (Fin u3) fa)"
    using fmul_within [OF unit_within [OF u3(2,3)] fa(2)] by simp
  then have A: "finite_within 64 (fmul (Fin u3) fa)"
    by (rule finite_within_mono) simp
  have "finite_within 2 (fmul (Fin 3) (Fin u2))"
    using fmul_within [OF three_within unit_within [OF u2(2,3)]] by simp
  then have "finite_within 2 (fmul (fmul (Fin 3) (Fin u2)) (Fin t))"
    using fmul_within [OF _ unit_within [OF t], of 2] by simp
  then have B: "finite_within 64 (fmul (fmul (fmul (Fin 3) (Fin u2)) (Fin t)) fb)"
    using fmul_within [OF _ fb(2), of 2] by simp
  have "finite_within 2 (fmul (Fin 3) (Fin u))"
    using fmul_within [OF three_within unit_within [OF u(2,3)]] by simp
  then have "finite_within 2 (fmul (fmul (Fin 3) (Fin u)) (Fin t2))"
    using fmul_within [OF _ unit_within [OF t2(2,3)], of 2] by simp
  then have C: "finite_within 64 (fmul (fmul (fmul (Fin 3) (Fin u)) (Fin t2)) fc)"
    using fmul_within [OF _ fc(2), of 2] by simp
  have "finite_within 62 (fmul (Fin t3) fd)"
    using fmul_within [OF unit_within [OF t3(2,3)] fd(2)] by simp
  then have D: "finite_within 64 (fmul (Fin t3) fd)"
    by (rule finite_within_mono) simp
  have "finite_within 65 (fadd (fmul (Fin u3) fa) (fmul (fmul (fmul (Fin 3) (Fin u2)) (Fin t)) fb))"
    using fadd_within [OF A B] by simp
  then have "finite_within 66 (fadd (fadd (fmul (Fin u3) fa)
        (fmul (fmul (fmul (Fin 3) (Fin u2)) (Fin t)) fb))
        (fmul (fmul (fmul (Fin 3) (Fin u)) (Fin t2)) fc))"
    using fadd_within [OF _ finite_within_mono [OF C, of 65], of _ ] by simp
  then have "finite_within 67 (fadd (fadd (fadd (fmul (Fin u3) fa)
        (fmul (fmul (fmul (Fin 3) (Fin u2)) (Fin t)) fb))
        (fmul (fmul (fmul (Fin 3) (Fin u)) (Fin t2)) fc))
        (fmul (Fin t3) fd))"
    using fadd_within [OF _ finite_within_mono [OF D, of 66], of _ ] by simp
  then obtain r where "fadd (fadd (fadd (fmul (Fin u3) fa)
        (fmul (fmul (fmul (Fin 3) (Fin u2)) (Fin t)) fb))
        (fmul (fmul (fmul (Fin 3) (Fin u)) (Fin t2)) fc))
        (fmul (Fin t3) fd) = Fin r"
    by (rule finite_withinE)
  then show ?thesis
    by (simp add: bezier_coord_def bind_e_def u(1) u3(1) u2(1) t2(1) t3(1) fa(1) fb(1) fc(1) fd(1))
qed

lemma point_within_62: "point_within 53 p \<Longrightarrow> point_within 62 p"
proof -
  assume "point_within 53 p"
  moreover have "(2::int) ^ 53 \<le> 2 ^ 62"
    by simp
  ultimately show ?thesis
    unfolding point_within_def by linarith
qed

lemma bezier_point_ok:
  assumes "pow_in_unit pw" and "point_within 62 p0" and "point_within 62 p1"
    and "point_within 62 p2" and "point_within 62 p3" and "0 \<le> i" and "i < steps"
  shows "\<exists>p. bezier_point pw p0 p1 p2 p3 i steps = Inr p"
proof -
  obtain t where t: "int_truediv i steps = Inr (Fin t)" "0 \<le> t" "t \<le> 1"
    using int_truediv_unit [OF assms(6,7)] by blast
  obtain x where x: "bezier_coord pw (Fin t) (fst p0) (fst p1) (fst p2) (fst p3) = Inr (Fin x)"
    using bezier_coord_finite [OF assms(1) t(2,3), of "fst p0" "fst p1" "fst p2" "fst p3"]
      assms(2-5) by (auto simp: point_within_def)
  obtain y where y: "bezier_coord pw (Fin t) (snd p0) (snd p1) (snd p2) (snd p3) = Inr (Fin y)"
    using bezier_coord_finite [OF assms(1) t(2,3), of "snd p0" "snd p1" "snd p2" "snd p3"]
      assms(2-5) by (auto simp: point_within_def)
  show ?thesis
    by (simp add: bezier_point_def bind_e_def t(1) x y py_int_def)
qed







lemma bezier_loop_char:
  "bezier_loop pw p0 p1 p2 p3 steps is acc = Inr res \<longleftrightarrow>
     (\<exists>pts. res = acc @ pts \<and> map (\<lambda>i. bezier_point pw p0 p1 p2 p3 i steps) is = map Inr pts)"
proof (induction "is" arbitrary: acc)
  case Nil
  then show ?case by auto
next
  case (Cons i "is")
  let ?f = "\<lambda>i. bezier_point pw p0 p1 p2 p3 i steps"
  show ?case
  proof (cases "?f i")
    case (Inl e)
    have "\<not> (\<exists>pts. res = acc @ pts \<and> map ?f (i # is) = map Inr pts)"
    proof
      assume "\<exists>pts. res = acc @ pts \<and> map ?f (i # is) = map Inr pts"
      then obtain pts where "map ?f (i # is) = map Inr pts"
        by blast
      then obtain q where "?f i = Inr q"
        by (cases pts) simp_all
      then show False
        using Inl by simp
    qed
    then show ?thesis
      using Inl by simp
  next
    case (Inr p)
    have "(\<exists>pts. res = (acc @ [p]) @ pts \<and> map ?f is = map Inr pts)
      \<longleftrightarrow> (\<exists>pts. res = acc @ pts \<and> map ?f (i # is) = map Inr pts)"
      (is "?L \<longleftrightarrow> ?R")
    proof
      assume ?L
      then obtain pts where "res = acc @ (p # pts)" "map ?f is = map Inr pts"
        by auto
      then have "res = acc @ (p # pts) \<and> map ?f (i # is) = map Inr (p # pts)"
        using Inr by simp
      then show ?R by blast
    next
      assume ?R
      then obtain pts where pts: "res = acc @ pts" "map ?f (i # is) = map Inr pts"
        by blast
      then obtain q qs where q: "pts = q # qs"
        by (cases pts) simp_all
      have "q = p" "map ?f is = map Inr qs"
        using pts(2) Inr unfolding q by simp_all
      then have "res = (acc @ [p]) @ qs \<and> map ?f is = map Inr qs"
        using pts(1) q by simp
      then show ?L by blast
    qed
    moreover have "bezier_loop pw p0 p1 p2 p3 steps (i # is) acc =
        bezier_loop pw p0 p1 p2 p3 steps is (acc @ [p])"
      using Inr by simp
    ultimately show ?thesis
      using Cons.IH [of "acc @ [p]"] by simp
  qed
qed

lemma generate_bezier_curve_char:
  "generate_bezier_curve pw p0 p1 p2 p3 steps = Inr points \<longleftrightarrow>
     map (\<lambda>i. bezier_point pw p0 p1 p2 p3 i steps) [0..steps - 1] = map Inr points"
  by (simp add: generate_bezier_curve_def py_range_def bezier_loop_char)

lemma map_all_Inr:
  assumes "\<forall>i \<in> set is. \<exists>p. f i = Inr p"
  shows "\<exists>pts. map f is = map Inr pts"
  using assms
proof (induction "is")
  case Nil
  then show ?case by simp
next
  case (Cons i "is")
  then obtain p pts where "f i = Inr p" "map f is = map Inr pts"
    by auto
  then have "map f (i # is) = map Inr (p # pts)"
    by simp
  then show ?case by blast
qed

lemma generate_bezier_curve_returns:
  assumes "pow_in_unit pw" and "point_within 62 p0" and "point_within 62 p1"
    and "point_within 62 p2" and "point_within 62 p3"
  shows "\<exists>points. generate_bezier_curve pw p0 p1 p2 p3 steps = Inr points"
proof -
  have "\<forall>i \<in> set [0..steps - 1]. \<exists>p. bezier_point pw p0 p1 p2 p3 i steps = Inr p"
    using bezier_point_ok [OF assms] by simp
  then show ?thesis
    unfolding generate_bezier_curve_char by (rule map_all_Inr)
qed

lemma generate_bezier_curve_length_aux:
  assumes "generate_bezier_curve pw p0 p1 p2 p3 steps = Inr points"
  shows "length points = nat steps"
proof -
  have "length (map (\<lambda>i. bezier_point pw p0 p1 p2 p3 i steps) [0..steps - 1]) =
        length (map (Inr :: point \<Rightarrow> py_error + point) points)"
    using assms unfolding generate_bezier_curve_char by simp
  then show ?thesis
    by simp
qed




section \<open>Exact values\<close>











section \<open>The Bezier motion generator\<close>

lemma randint_jitter: "- 100 \<le> randint (- 100) 100 k \<and> randint (- 100) 100 k \<le> 100"
proof -
  have "k mod 201 < 201" by simp
  then show ?thesis by (simp add: randint_def)
qed

lemma control_points_within:
  assumes "point_within 53 p"
  shows "point_within 62 (control_point1 p j)" and "point_within 62 (control_point2 p j)"
proof -
  have big: "(2::int) ^ 53 + 100 \<le> 2 ^ 62"
    by simp
  have p: "\<bar>fst p\<bar> \<le> 2 ^ 53" "\<bar>snd p\<bar> \<le> 2 ^ 53"
    using assms by (simp_all add: point_within_def)
  show "point_within 62 (control_point1 p j)"
    unfolding point_within_def control_point1_def
    using p big randint_jitter [of "cp1_dx j"] randint_jitter [of "cp1_dy j"] by simp linarith
  show "point_within 62 (control_point2 p j)"
    unfolding point_within_def control_point2_def
    using p big randint_jitter [of "cp2_dx j"] randint_jitter [of "cp2_dy j"] by simp linarith
qed








text \<open>
  Claim C6. A generated sequence has exactly \<open>steps\<close> points for \<open>steps > 0\<close>, and for
  \<open>steps = 0\<close> it is empty. The sequence is generated for every \<open>steps > 0\<close> when all
  coordinates have magnitude at most \<open>2 ^ 62\<close>; the call can only fail to return a sequence
  by raising on an int too large for a float or on an overflow.
\<close>

theorem generate_bezier_curve_length:
  "(\<forall>points. generate_bezier_curve pw p0 p1 p2 p3 steps = Inr points \<longrightarrow>
       0 < steps \<longrightarrow> int (length points) = steps)
   \<and> generate_bezier_curve pw p0 p1 p2 p3 0 = Inr []
   \<and> (0 < steps \<and> pow_in_unit pw \<and> point_within 62 p0 \<and> point_within 62 p1
        \<and> point_within 62 p2 \<and> point_within 62 p3 \<longrightarrow>
        (\<exists>points. generate_bezier_curve pw p0 p1 p2 p3 steps = Inr points
           \<and> int (length points) = steps))"
proof (intro conjI allI impI)
  fix points
  assume "generate_bezier_curve pw p0 p1 p2 p3 steps = Inr points" and "0 < steps"
  then show "int (length points) = steps"
    using generate_bezier_curve_length_aux by fastforce
next
  show "generate_bezier_curve pw p0 p1 p2 p3 0 = Inr []"
    by (simp add: generate_bezier_curve_def py_range_def)
next
  assume a: "0 < steps \<and> pow_in_unit pw \<and> point_within 62 p0 \<and> point_within 62 p1
        \<and> point_within 62 p2 \<and> point_within 62 p3"
  then obtain points where points: "generate_bezier_curve pw p0 p1 p2 p3 steps = Inr points"
    using generate_bezier_curve_returns [of pw p0 p1 p2 p3 steps] by blast
  then have "int (length points) = steps"
    using a generate_bezier_curve_length_aux [OF points] by simp
  then show "\<exists>points. generate_bezier_curve pw p0 p1 p2 p3 steps = Inr points
           \<and> int (length points) = steps"
    using points by blast
qed

theorem generate_bezier_curve_length_witness:
  "(0::int) < 25
   \<and> map_sum id length (generate_bezier_curve reference_pow (0, 0) (5, 5) (105, 5) (100, 0) 25) = Inr 25
   \<and> generate_bezier_curve reference_pow (0, 0) (5, 5) (105, 5) (100, 0) 0 = Inr []"
proof -
  have "\<exists>points. generate_bezier_curve reference_pow (0, 0) (5, 5) (105, 5) (100, 0) 25 = Inr points
           \<and> int (length points) = 25"
    using generate_bezier_curve_length [of reference_pow "(0, 0)" "(5, 5)" "(105, 5)" "(100, 0)" 25]
      pow_in_unit_reference by (simp add: point_within_def)
  then obtain points where
    "generate_bezier_curve reference_pow (0, 0) (5, 5) (105, 5) (100, 0) 25 = Inr points"
    "int (length points) = 25"
    by blast
  then have "map_sum id length (generate_bezier_curve reference_pow (0, 0) (5, 5) (105, 5) (100, 0) 25) = Inr 25"
    by simp
  then show ?thesis
    using generate_bezier_curve_length [of reference_pow "(0, 0)" "(5, 5)" "(105, 5)" "(100, 0)" 0]
    by simp
qed

lemma motion_points_returns:
  assumes "pow_in_unit pw" and "point_within 53 start_coords" and "point_within 53 end_coords"
  shows "\<exists>points. motion_points pw start_coords end_coords steps j = Inr points"
  unfolding motion_points_def using assms
  by (intro generate_bezier_curve_returns) (simp_all add: point_within_62 control_points_within)

section \<open>The delay model and the action gate\<close>

lemma uniform_in_range:
  assumes "a \<le> b" and "unit_draw r"
  shows "a \<le> uniform a b r \<and> uniform a b r \<le> b"
proof -
  have "0 \<le> (b - a) * r"
    using assms by (simp add: unit_draw_def)
  moreover have "(b - a) * r \<le> (b - a) * 1"
    using assms by (intro mult_left_mono) (simp_all add: unit_draw_def)
  ultimately show ?thesis
    by (simp add: uniform_def)
qed

text \<open>With two explicit non-zero bounds the sampler stays inside the requested range.\<close>

lemma generate_random_delay_in_range:
  assumes "0 < min_delay" and "min_delay \<le> max_delay" and "unit_draw r"
  shows "min_delay \<le> generate_random_delay cfg (Some min_delay) (Some max_delay) r
     \<and> generate_random_delay cfg (Some min_delay) (Some max_delay) r \<le> max_delay"
  using assms uniform_in_range [of min_delay max_delay r]
  by (simp add: generate_random_delay_def py_or_def)

text \<open>
  Claim C7 at the input \<open>min = 0\<close>, \<open>max = 1\<close> with the default configuration and the draw
  \<open>1/2\<close>: the lower bound 0 is replaced by the configured 1.5, and the sampled delay \<open>5/4\<close>
  lies outside \<open>[0, 1]\<close>.
\<close>

theorem delay_zero_min_leaves_range:
  "unit_draw (1 / 2)
   \<and> generate_random_delay default_config (Some 0) (Some 1) (1 / 2) = 5 / 4
   \<and> 1 < generate_random_delay default_config (Some 0) (Some 1) (1 / 2)"
  by (simp add: generate_random_delay_def py_or_def uniform_def default_config_def unit_draw_def)

text \<open>
  Claim C9. For a draw \<open>r\<close> from \<open>[0, 1)\<close> the gate fires exactly when \<open>r < p\<close>; for
  \<open>p = 0\<close> it never fires and for \<open>p = 1\<close> it always fires.
\<close>

theorem should_perform_action_gate:
  assumes "unit_draw r"
  shows "(should_perform_action r p \<longleftrightarrow> r < p)
     \<and> \<not> should_perform_action r 0
     \<and> should_perform_action r 1"
  using assms by (simp add: should_perform_action_def unit_draw_def)

theorem should_perform_action_gate_witness:
  "unit_draw (1 / 2)
   \<and> \<not> should_perform_action (1 / 2) (3 / 10)
   \<and> \<not> should_perform_action (1 / 2) 0
   \<and> should_perform_action (1 / 2) 1"
  using should_perform_action_gate [of "1 / 2" "3 / 10"]
  by (simp add: unit_draw_def)

text \<open>
  Claim C10. An explicit bound equal to 0 is treated like an absent one: it is replaced by
  the configured \<open>MIN_INTERACTION_DELAY\<close> or \<open>MAX_INTERACTION_DELAY\<close>. The sampled delay can
  then lie outside the requested range: with the default configuration the request
  \<open>[0, 1/2]\<close> and the draw \<open>0\<close> give \<open>3/2\<close>.
\<close>

theorem zero_bound_replaced_by_default:
  "generate_random_delay cfg (Some 0) max_delay r = generate_random_delay cfg None max_delay r
   \<and> generate_random_delay cfg min_delay (Some 0) r = generate_random_delay cfg min_delay None r
   \<and> generate_random_delay cfg (Some 0) (Some 0) r =
       uniform (MIN_INTERACTION_DELAY cfg) (MAX_INTERACTION_DELAY cfg) r
   \<and> unit_draw 0
   \<and> generate_random_delay default_config (Some 0) (Some (1 / 2)) 0 = 3 / 2"
  by (simp add: generate_random_delay_def py_or_def uniform_def default_config_def unit_draw_def
      Let_def)

section \<open>Configuration loading\<close>

text \<open>
  Claim C3, as amended. A configuration in which a probability lies outside \<open>[0, 1]\<close> or a
  delay range has its minimum above its maximum is accepted at load time: every setting that
  converts to a number is stored unchanged, whatever its value, and is then used as it is.
  The default delay is \<open>min + (max - min) * draw\<close> and the gates compare the draw with the
  stored probability.
\<close>

theorem load_config_no_validation:
  "load_config
     \<lparr>env_MIN_WATCH_TIME = Parsed min_watch, env_MAX_WATCH_TIME = Parsed max_watch,
      env_MIN_INTERACTION_DELAY = Parsed min_delay, env_MAX_INTERACTION_DELAY = Parsed max_delay,
      env_SCROLL_PROBABILITY = Parsed scroll_p, env_CLICK_PROBABILITY = Parsed click_p,
      env_TARGET_VIDEO_URL = url\<rparr>
   = Inr \<lparr>MIN_WATCH_TIME = min_watch, MAX_WATCH_TIME = max_watch,
          MIN_INTERACTION_DELAY = min_delay, MAX_INTERACTION_DELAY = max_delay,
          SCROLL_PROBABILITY = scroll_p, CLICK_PROBABILITY = click_p,
          TARGET_VIDEO_URL = getenv_str url []\<rparr>
   \<and> generate_random_delay cfg None None r =
       MIN_INTERACTION_DELAY cfg + (MAX_INTERACTION_DELAY cfg - MIN_INTERACTION_DELAY cfg) * r
   \<and> (should_perform_action r (SCROLL_PROBABILITY cfg) \<longleftrightarrow> r < SCROLL_PROBABILITY cfg)
   \<and> (should_perform_action r (CLICK_PROBABILITY cfg) \<longleftrightarrow> r < CLICK_PROBABILITY cfg)"
  by (simp add: load_config_def getenv_num_def bind_e_def generate_random_delay_def py_or_def
      uniform_def should_perform_action_def Let_def)

text \<open>
  Claim C3 as stated fails: an environment with scroll probability \<open>3/2\<close>, click
  probability \<open>-1\<close> and the delay range \<open>[5, 1]\<close> loads without an error.
\<close>

theorem load_config_accepts_invalid:
  "load_config
     \<lparr>env_MIN_WATCH_TIME = Unset, env_MAX_WATCH_TIME = Unset,
      env_MIN_INTERACTION_DELAY = Parsed 5, env_MAX_INTERACTION_DELAY = Parsed 1,
      env_SCROLL_PROBABILITY = Parsed (3 / 2), env_CLICK_PROBABILITY = Parsed (- 1),
      env_TARGET_VIDEO_URL = None\<rparr>
   = Inr \<lparr>MIN_WATCH_TIME = 30, MAX_WATCH_TIME = 300,
          MIN_INTERACTION_DELAY = 5, MAX_INTERACTION_DELAY = 1,
          SCROLL_PROBABILITY = 3 / 2, CLICK_PROBABILITY = - 1,
          TARGET_VIDEO_URL = []\<rparr>"
  by (simp add: load_config_def getenv_num_def getenv_str_def bind_e_def)

section \<open>The interaction loop\<close>

lemma snd_io_bind:
  "snd (io_bind m f) = (case snd m of Inl e \<Rightarrow> Inl e | Inr x \<Rightarrow> snd (f x))"
  by (simp add: io_bind_def split: prod.splits sum.splits)

lemma snd_io_of: "snd (io_of m) = Inr (snd m)"
  by (simp add: io_of_def)

lemma snd_io_return: "snd (io_return x) = Inr x"
  by (simp add: io_return_def)

lemma randint_5_15: "5 \<le> randint 5 15 k \<and> randint 5 15 k \<le> 15"
proof -
  have "k mod 11 < 11" by simp
  then show ?thesis by (simp add: randint_def)
qed

lemma tick_interval_pos:
  "elapsed < watch_time \<Longrightarrow> 0 < min (randint 5 15 k) (watch_time - elapsed)"
  using randint_5_15 [of k] by simp

lemma snd_watch_loop_unfold:
  assumes "elapsed < watch_time"
  shows "snd (watch_loop cfg env watch_time n elapsed) =
     (case snd (wait_random_delay cfg
                  (Some (real_of_int (min (randint 5 15 (interval_seed (env n))) (watch_time - elapsed))))
                  (Some (real_of_int (min (randint 5 15 (interval_seed (env n))) (watch_time - elapsed) + 2)))
                  (interval_delay (env n))) of
        Inl e \<Rightarrow> Inl e
      | Inr u \<Rightarrow> snd (watch_loop cfg env watch_time (Suc n)
                   (elapsed + min (randint 5 15 (interval_seed (env n))) (watch_time - elapsed))))"
  using assms
  by (simp add: watch_loop.simps [of cfg env watch_time n elapsed]
      snd_io_bind snd_io_of snd_io_return Let_def)

lemma loop_wait:
  assumes "unit_draw r" and "0 < interval"
  shows "wait_random_delay cfg (Some (real_of_int interval)) (Some (real_of_int (interval + 2))) r
           = ([Sleep (real_of_int interval + 2 * r)], Inr ())"
proof -
  have "0 \<le> real_of_int interval + 2 * r"
    using assms by (simp add: unit_draw_def)
  moreover have "real_of_int interval \<noteq> 0" "real_of_int interval + 2 \<noteq> 0"
    using assms by auto
  ultimately show ?thesis
    by (simp add: wait_random_delay_def generate_random_delay_def py_or_def uniform_def
        time_sleep_def io_do_def algebra_simps)
qed

lemma watch_loop_step:
  assumes "unit_draw (interval_delay (env n))" and "elapsed < watch_time"
  shows "snd (watch_loop cfg env watch_time n elapsed) =
         snd (watch_loop cfg env watch_time (Suc n)
                (elapsed + min (randint 5 15 (interval_seed (env n))) (watch_time - elapsed)))"
proof -
  let ?iv = "min (randint 5 15 (interval_seed (env n))) (watch_time - elapsed)"
  have "0 < ?iv"
    using assms(2) by (rule tick_interval_pos)
  then have "wait_random_delay cfg (Some (real_of_int ?iv)) (Some (real_of_int (?iv + 2)))
               (interval_delay (env n))
             = ([Sleep (real_of_int ?iv + 2 * interval_delay (env n))], Inr ())"
    using assms(1) by (intro loop_wait)
  then show ?thesis
    unfolding snd_watch_loop_unfold [OF assms(2)] by simp
qed

lemma watch_loop_normal_result:
  "snd (watch_loop cfg env watch_time n elapsed) = Inr final \<Longrightarrow> final = max elapsed watch_time"
proof (induction cfg env watch_time n elapsed rule: watch_loop.induct)
  case (1 cfg env watch_time n elapsed)
  show ?case
  proof (cases "elapsed < watch_time")
    case True
    let ?iv = "min (randint 5 15 (interval_seed (env n))) (watch_time - elapsed)"
    have "snd (watch_loop cfg env watch_time (Suc n) (elapsed + ?iv)) = Inr final"
      using "1.prems" True
      by (simp add: snd_watch_loop_unfold split: sum.splits)
    then have "final = max (elapsed + ?iv) watch_time"
      using "1.IH" [OF True refl] by blast
    moreover have "0 < ?iv"
      using True by (rule tick_interval_pos)
    ultimately show ?thesis
      using True by linarith
  next
    case False
    then show ?thesis
      using "1.prems" by (simp add: watch_loop.simps [of cfg env watch_time n elapsed] io_return_def)
  qed
qed

lemma watch_loop_returns:
  assumes "\<forall>k. unit_draw (interval_delay (env k))"
  shows "snd (watch_loop cfg env watch_time n elapsed) = Inr (max elapsed watch_time)"
  using assms
proof (induction cfg env watch_time n elapsed rule: watch_loop.induct)
  case (1 cfg env watch_time n elapsed)
  show ?case
  proof (cases "elapsed < watch_time")
    case True
    let ?iv = "min (randint 5 15 (interval_seed (env n))) (watch_time - elapsed)"
    have draw: "unit_draw (interval_delay (env n))"
      using "1.prems" by simp
    have step: "snd (watch_loop cfg env watch_time n elapsed) =
          snd (watch_loop cfg env watch_time (Suc n) (elapsed + ?iv))"
      using draw True by (rule watch_loop_step [of env n elapsed watch_time cfg])
    have "snd (watch_loop cfg env watch_time (Suc n) (elapsed + ?iv)) =
          Inr (max (elapsed + ?iv) watch_time)"
      using "1.IH" [OF True refl] "1.prems" by blast
    moreover have "max (elapsed + ?iv) watch_time = max elapsed watch_time"
      using True tick_interval_pos [OF True, of "interval_seed (env n)"] by linarith
    ultimately show ?thesis
      using step by simp
  next
    case False
    then show ?thesis
      by (simp add: watch_loop.simps [of cfg env watch_time n elapsed] io_return_def)
  qed
qed

lemma io_bind_Inr: "io_bind (tr, Inr x) f = (tr @ fst (f x), snd (f x))"
  by (simp add: io_bind_def split: prod.splits)

lemma watch_loop_tick:
  assumes "unit_draw (interval_delay (env n))" and "elapsed < watch_time"
  shows "watch_loop cfg env watch_time n elapsed =
     ((if should_perform_action (scroll_gate (env n)) (SCROLL_PROBABILITY cfg)
       then fst (perform_random_scroll cfg (env n)) else [])
      @ (if should_perform_action (click_gate (env n)) (CLICK_PROBABILITY cfg)
         then fst (perform_random_click cfg (env n)) else [])
      @ [Sleep (real_of_int (min (randint 5 15 (interval_seed (env n))) (watch_time - elapsed))
                + 2 * interval_delay (env n))]
      @ fst (watch_loop cfg env watch_time (Suc n)
               (elapsed + min (randint 5 15 (interval_seed (env n))) (watch_time - elapsed))),
      snd (watch_loop cfg env watch_time (Suc n)
             (elapsed + min (randint 5 15 (interval_seed (env n))) (watch_time - elapsed))))"
proof -
  let ?iv = "min (randint 5 15 (interval_seed (env n))) (watch_time - elapsed)"
  have "0 < ?iv"
    using assms(2) by (rule tick_interval_pos)
  then have wait: "wait_random_delay cfg (Some (real_of_int ?iv)) (Some (real_of_int (?iv + 2)))
               (interval_delay (env n))
             = ([Sleep (real_of_int ?iv + 2 * interval_delay (env n))], Inr ())"
    using assms(1) by (intro loop_wait)
  have "watch_loop cfg env watch_time n elapsed =
        io_bind (if should_perform_action (scroll_gate (env n)) (SCROLL_PROBABILITY cfg)
                 then io_of (perform_random_scroll cfg (env n)) else io_return ()) (\<lambda>_.
        io_bind (if should_perform_action (click_gate (env n)) (CLICK_PROBABILITY cfg)
                 then io_of (perform_random_click cfg (env n)) else io_return ()) (\<lambda>_.
        io_bind (wait_random_delay cfg (Some (real_of_int ?iv)) (Some (real_of_int (?iv + 2)))
                   (interval_delay (env n))) (\<lambda>_.
        watch_loop cfg env watch_time (Suc n) (elapsed + ?iv))))"
    using assms(2) by (simp add: watch_loop.simps [of cfg env watch_time n elapsed] Let_def)
  then show ?thesis
    unfolding wait by (simp add: io_bind_Inr io_of_def io_return_def)
qed

text \<open>
  Claim C8, as amended. The tick interval is drawn from \<open>[5, 15]\<close>. A tick that starts at
  \<open>elapsed\<close> below the watch time performs its gated interactions, sleeps for the interval
  \<open>min interval (watch_time - elapsed)\<close> plus up to two seconds, and continues the loop at
  \<open>elapsed\<close> plus that interval. Whenever the loop started at 0 returns normally, its final
  elapsed time is \<open>max 0 watch_time\<close>: it does not exceed a requested watch time that is not
  negative; and the loop does return normally when every delay draw is in \<open>[0, 1)\<close>.
\<close>

theorem watch_loop_elapsed_bounded:
  "5 \<le> randint 5 15 (interval_seed (env n)) \<and> randint 5 15 (interval_seed (env n)) \<le> 15
   \<and> (elapsed < watch_time \<and> unit_draw (interval_delay (env n)) \<longrightarrow>
        watch_loop cfg env watch_time n elapsed =
          ((if should_perform_action (scroll_gate (env n)) (SCROLL_PROBABILITY cfg)
            then fst (perform_random_scroll cfg (env n)) else [])
           @ (if should_perform_action (click_gate (env n)) (CLICK_PROBABILITY cfg)
              then fst (perform_random_click cfg (env n)) else [])
           @ [Sleep (real_of_int (min (randint 5 15 (interval_seed (env n))) (watch_time - elapsed))
                     + 2 * interval_delay (env n))]
           @ fst (watch_loop cfg env watch_time (Suc n)
                    (elapsed + min (randint 5 15 (interval_seed (env n))) (watch_time - elapsed))),
           snd (watch_loop cfg env watch_time (Suc n)
                  (elapsed + min (randint 5 15 (interval_seed (env n))) (watch_time - elapsed)))))
   \<and> (\<forall>final. snd (watch_loop cfg env watch_time 0 0) = Inr final \<longrightarrow>
          final = max 0 watch_time \<and> (0 \<le> watch_time \<longrightarrow> final \<le> watch_time))
   \<and> ((\<forall>k. unit_draw (interval_delay (env k))) \<longrightarrow>
          snd (watch_loop cfg env watch_time 0 0) = Inr (max 0 watch_time))"
proof (intro conjI)
  show "5 \<le> randint 5 15 (interval_seed (env n))" "randint 5 15 (interval_seed (env n)) \<le> 15"
    using randint_5_15 by simp_all
  show "elapsed < watch_time \<and> unit_draw (interval_delay (env n)) \<longrightarrow>
        watch_loop cfg env watch_time n elapsed =
          ((if should_perform_action (scroll_gate (env n)) (SCROLL_PROBABILITY cfg)
            then fst (perform_random_scroll cfg (env n)) else [])
           @ (if should_perform_action (click_gate (env n)) (CLICK_PROBABILITY cfg)
              then fst (perform_random_click cfg (env n)) else [])
           @ [Sleep (real_of_int (min (randint 5 15 (interval_seed (env n))) (watch_time - elapsed))
                     + 2 * interval_delay (env n))]
           @ fst (watch_loop cfg env watch_time (Suc n)
                    (elapsed + min (randint 5 15 (interval_seed (env n))) (watch_time - elapsed))),
           snd (watch_loop cfg env watch_time (Suc n)
                  (elapsed + min (randint 5 15 (interval_seed (env n))) (watch_time - elapsed))))"
    using watch_loop_tick [of env n elapsed watch_time cfg] by blast
  show "\<forall>final. snd (watch_loop cfg env watch_time 0 0) = Inr final \<longrightarrow>
          final = max 0 watch_time \<and> (0 \<le> watch_time \<longrightarrow> final \<le> watch_time)"
    using watch_loop_normal_result [of cfg env watch_time 0 0] by auto
  show "(\<forall>k. unit_draw (interval_delay (env k))) \<longrightarrow>
          snd (watch_loop cfg env watch_time 0 0) = Inr (max 0 watch_time)"
    using watch_loop_returns [of env cfg watch_time 0 0] by simp
qed

theorem watch_loop_elapsed_bounded_witness:
  "(0::int) < 20 \<and> unit_draw (interval_delay fixed_tick)
   \<and> randint 5 15 (interval_seed fixed_tick) = 5
   \<and> snd (watch_loop scenario_config (\<lambda>n. fixed_tick) 20 0 0) = Inr 20
   \<and> watch_loop scenario_config (\<lambda>n. fixed_tick) 20 0 0 =
       ([ScrollBy 50, Sleep (3 / 2), Sleep 5]
          @ fst (watch_loop scenario_config (\<lambda>n. fixed_tick) 20 (Suc 0) 5),
        snd (watch_loop scenario_config (\<lambda>n. fixed_tick) 20 (Suc 0) 5))"
proof -
  have draw: "unit_draw (interval_delay fixed_tick)"
    by (simp add: fixed_tick_def unit_draw_def)
  have five: "randint 5 15 (interval_seed fixed_tick) = 5"
    by (simp add: fixed_tick_def randint_def)
  note loop = watch_loop_elapsed_bounded [of "\<lambda>n. fixed_tick" 0 0 20 scenario_config]
  have "(\<forall>k. unit_draw (interval_delay fixed_tick)) \<longrightarrow>
        snd (watch_loop scenario_config (\<lambda>n. fixed_tick) 20 0 0) = Inr (max 0 20)"
    using loop by blast
  then have final: "snd (watch_loop scenario_config (\<lambda>n. fixed_tick) 20 0 0) = Inr 20"
    using draw by simp
  have scroll: "should_perform_action (scroll_gate fixed_tick) (SCROLL_PROBABILITY scenario_config)"
    "\<not> should_perform_action (click_gate fixed_tick) (CLICK_PROBABILITY scenario_config)"
    by (simp_all add: should_perform_action_def fixed_tick_def scenario_config_def)
  have effects: "fst (perform_random_scroll scenario_config fixed_tick) = [ScrollBy 50, Sleep (3 / 2)]"
    by (simp add: perform_random_scroll_def fixed_tick_def scenario_config_def default_config_def
        try_except_def io_bind_def io_do_def wait_random_delay_def generate_random_delay_def
        py_or_def uniform_def time_sleep_def randint_def Let_def)
  have delay: "interval_delay fixed_tick = 0"
    by (simp add: fixed_tick_def)
  have "(0::int) < 20 \<and> unit_draw (interval_delay fixed_tick) \<longrightarrow>
        watch_loop scenario_config (\<lambda>n. fixed_tick) 20 0 0 =
          ((if should_perform_action (scroll_gate fixed_tick) (SCROLL_PROBABILITY scenario_config)
            then fst (perform_random_scroll scenario_config fixed_tick) else [])
           @ (if should_perform_action (click_gate fixed_tick) (CLICK_PROBABILITY scenario_config)
              then fst (perform_random_click scenario_config fixed_tick) else [])
           @ [Sleep (real_of_int (min (randint 5 15 (interval_seed fixed_tick)) (20 - 0))
                     + 2 * interval_delay fixed_tick)]
           @ fst (watch_loop scenario_config (\<lambda>n. fixed_tick) 20 (Suc 0)
                    (0 + min (randint 5 15 (interval_seed fixed_tick)) (20 - 0))),
           snd (watch_loop scenario_config (\<lambda>n. fixed_tick) 20 (Suc 0)
                  (0 + min (randint 5 15 (interval_seed fixed_tick)) (20 - 0))))"
    using loop [THEN conjunct2, THEN conjunct2, THEN conjunct1] by simp
  then have "watch_loop scenario_config (\<lambda>n. fixed_tick) 20 0 0 =
       ([ScrollBy 50, Sleep (3 / 2), Sleep 5]
          @ fst (watch_loop scenario_config (\<lambda>n. fixed_tick) 20 (Suc 0) 5),
        snd (watch_loop scenario_config (\<lambda>n. fixed_tick) 20 (Suc 0) 5))"
    using draw by (simp add: five scroll effects delay)
  then show ?thesis
    using draw five final by simp
qed

text \<open>
  Claim C8 as stated fails: for the requested watch time \<open>-5\<close> the loop returns at once with
  the elapsed time 0, which exceeds the request.
\<close>

theorem negative_watch_time_exceeded:
  "snd (watch_loop scenario_config (ticks found_env) (- 5) 0 0) = Inr 0 \<and> \<not> (0::int) \<le> - 5"
  by (simp add: watch_loop.simps [of _ _ "- 5" 0 0] io_return_def)

section \<open>Sessions\<close>

lemma try_selectors_timeout:
  "\<forall>selector \<in> set selectors. until selector = Inl TimeoutException
   \<Longrightarrow> try_selectors until selectors = Inr None"
  by (induction selectors) simp_all

lemma find_video_element_timeout:
  assumes "\<forall>selector \<in> set video_selectors. wait_until env selector = Inl TimeoutException"
  shows "find_video_element env = None"
  using try_selectors_timeout [OF assms] by (simp add: find_video_element_def)

lemma snd_try_except:
  "snd (try_except m d) = (case snd m of Inl e \<Rightarrow> d | Inr x \<Rightarrow> x)"
  by (simp add: try_except_def split: prod.splits sum.splits)

lemma simulate_video_watching_not_found:
  assumes "find_video_element env = None"
  shows "snd (simulate_video_watching cfg env url watch_time) = False"
  using assms
  by (simp add: simulate_video_watching_def snd_try_except snd_io_bind io_of_def io_return_def)

text \<open>
  Claim C2, as amended. For every session with a non-empty video URL in which the element
  lookup times out under every selector of the list, \<open>run_session\<close> returns \<open>False\<close>, a bare
  boolean without a failure reason. When a telemetry client with an API key is installed, the
  requests posted are the \<open>session_start\<close> event and one \<open>session_error\<close> event whose
  metadata carries the message \<open>Simulation failed\<close>; without such a client nothing is posted.
\<close>

theorem lookup_timeout_reports_simulation_failed:
  assumes "\<forall>selector \<in> set video_selectors. wait_until env selector = Inl TimeoutException"
    and "py_or_str (args_url w) (TARGET_VIDEO_URL cfg) = url" and "url \<noteq> []"
  shows "returned (run_session cfg w env clock_start clock_end) = False
     \<and> posted (run_session cfg w env clock_start clock_end) =
         (case socionator w of
            None \<Rightarrow> []
          | Some api \<Rightarrow>
              if api_key api = [] then []
              else [EngagementEvent ''session_start'' url
                      [(''proxy_type'', if tor_manager w then ''tor'' else ''custom'')],
                    EngagementEvent ''session_error'' url [(''error'', ''Simulation failed'')]])"
proof -
  have "find_video_element env = None"
    using assms(1) by (rule find_video_element_timeout)
  then have "snd (simulate_video_watching cfg env url (args_watch_time w)) = False"
    by (rule simulate_video_watching_not_found)
  then show ?thesis
    using assms(2,3)
    by (simp add: run_session_def Let_def report_session_error_def send_engagement_event_def
        split: option.splits)
qed

theorem lookup_timeout_reports_simulation_failed_witness:
  "wait_until timeout_env ''video'' = Inl TimeoutException
   \<and> wait_until timeout_env ''iframe[src*='youtube']'' = Inl TimeoutException
   \<and> wait_until timeout_env ''iframe[src*='vimeo']'' = Inl TimeoutException
   \<and> wait_until timeout_env ''#movie_player'' = Inl TimeoutException
   \<and> py_or_str (args_url scenario_watcher) (TARGET_VIDEO_URL scenario_config) = scenario_url
   \<and> scenario_url \<noteq> []
   \<and> returned (run_session scenario_config scenario_watcher timeout_env 1000 1030) = False
   \<and> posted (run_session scenario_config scenario_watcher timeout_env 1000 1030) =
       [EngagementEvent ''session_start'' scenario_url [(''proxy_type'', ''tor'')],
        EngagementEvent ''session_error'' scenario_url [(''error'', ''Simulation failed'')]]"
proof -
  have timeouts: "\<forall>selector \<in> set video_selectors. wait_until timeout_env selector = Inl TimeoutException"
    by (simp add: timeout_env_def)
  have url: "py_or_str (args_url scenario_watcher) (TARGET_VIDEO_URL scenario_config) = scenario_url"
    by (simp add: py_or_str_def scenario_watcher_def VideoWatcher_init_def scenario_url_def)
  have nonempty: "scenario_url \<noteq> []"
    by (simp add: scenario_url_def)
  show ?thesis
    using lookup_timeout_reports_simulation_failed [OF timeouts url nonempty, of 1000 1030]
      url nonempty
    by (simp add: scenario_watcher_def VideoWatcher_init_def timeout_env_def)
qed

text \<open>
  Claim C2 as stated fails: in the scenario whose lookups all time out, with a telemetry
  client installed, no \<open>session_error\<close> event carrying \<open>video_not_found\<close> is posted.
\<close>

theorem lookup_timeout_no_video_not_found:
  "\<not> (returned (run_session scenario_config scenario_watcher timeout_env 1000 1030) = False
      \<and> EngagementEvent ''session_error'' scenario_url [(''error'', ''video_not_found'')]
          \<in> set (posted (run_session scenario_config scenario_watcher timeout_env 1000 1030)))"
proof -
  have "find_video_element timeout_env = None"
    by (rule find_video_element_timeout) (simp add: timeout_env_def)
  then have "snd (simulate_video_watching scenario_config timeout_env scenario_url (Some 20)) = False"
    by (rule simulate_video_watching_not_found)
  then have "posted (run_session scenario_config scenario_watcher timeout_env 1000 1030) =
       [EngagementEvent ''session_start'' scenario_url [(''proxy_type'', ''tor'')],
        EngagementEvent ''session_error'' scenario_url [(''error'', ''Simulation failed'')]]"
    by (simp add: run_session_def Let_def report_session_error_def send_engagement_event_def
        scenario_watcher_def VideoWatcher_init_def py_or_str_def scenario_url_def)
  then show ?thesis
    by simp
qed

text \<open>No path through \<open>run_session\<close> writes the interaction counters.\<close>

lemma run_session_keeps_interactions:
  "interactions (session_data (watcher (run_session cfg w env clock_start clock_end))) =
   interactions (session_data w)"
  by (simp add: run_session_def Let_def)

lemma scenario_loop:
  "watch_loop scenario_config (\<lambda>n. fixed_tick) 20 0 0 =
     ([ScrollBy 50, Sleep (3 / 2), Sleep 5, ScrollBy 50, Sleep (3 / 2), Sleep 5,
       ScrollBy 50, Sleep (3 / 2), Sleep 5, ScrollBy 50, Sleep (3 / 2), Sleep 5], Inr 20)"
  by (simp add: watch_loop.simps scenario_config_def default_config_def fixed_tick_def
      should_perform_action_def perform_random_scroll_def perform_random_click_def
      try_except_def io_bind_def io_of_def io_return_def io_do_def io_raise_def
      wait_random_delay_def generate_random_delay_def py_or_def uniform_def time_sleep_def
      randint_def Let_def)

lemma scenario_delays:
  "MIN_INTERACTION_DELAY scenario_config = 3 / 2" "MAX_INTERACTION_DELAY scenario_config = 5"
  by (simp_all add: scenario_config_def default_config_def)

lemma filter_scroll_queue_moves: "filter is_scroll (queue_moves ps i points) = []"
  by (induction points arbitrary: i) simp_all

lemma scenario_focus_click:
  "\<exists>points. simulate_click scenario_config still_click video_player =
     (queue_moves (\<lambda>i. 0) 0 points @ [Click 0, Sleep (1 / 10)], True)"
proof -
  have "point_within 53 (0, 0)" "point_within 53 (105, 105)"
    by (simp_all add: point_within_def)
  then obtain points where
    points: "motion_points reference_pow (0, 0) (105, 105) 25 still_jitter = Inr points"
    using motion_points_returns [OF pow_in_unit_reference] by blast
  have "simulate_click scenario_config still_click video_player =
     (queue_moves (\<lambda>i. 0) 0 points @ [Click 0, Sleep (1 / 10)], True)"
    by (simp add: simulate_click_def still_click_def still_move_def video_player_def
        generate_human_like_mouse_movement_def points get_current_mouse_position_def
        element_click_def randint_checked_def randint_def
        try_except_def io_bind_def io_return_def io_do_def io_raise_def io_lift_def
        wait_random_delay_def generate_random_delay_def py_or_def uniform_def time_sleep_def
        Let_def)
  then show ?thesis
    by blast
qed

lemma scenario_simulation:
  "snd (simulate_video_watching scenario_config found_env scenario_url (Some 20)) = True
   \<and> length (filter is_scroll (fst (simulate_video_watching scenario_config found_env scenario_url (Some 20)))) = 4"
proof -
  obtain points where click: "simulate_click scenario_config still_click video_player =
     (queue_moves (\<lambda>i. 0) 0 points @ [Click 0, Sleep (1 / 10)], True)"
    using scenario_focus_click by blast
  have player: "send_keys_raises video_player = False" "el_id video_player = 0"
    by (simp_all add: video_player_def)
  have playing: "ensure_video_playing scenario_config found_env video_player =
     (queue_moves (\<lambda>i. 0) 0 points
        @ [Click 0, Sleep (1 / 10), Sleep (3 / 2), SendKeys 0 '' '', Sleep (3 / 2)], True)"
    by (simp add: ensure_video_playing_def found_env_def click element_send_keys_def
        player scenario_delays
        try_except_def io_bind_def io_of_def io_return_def io_do_def io_raise_def
        wait_random_delay_def generate_random_delay_def py_or_def uniform_def time_sleep_def
        Let_def)
  have found: "find_video_element found_env = Some video_player"
    by (simp add: find_video_element_def found_env_def video_selectors_def)
  have nav: "navigate_to_url scenario_config found_env scenario_url = ([Get scenario_url, Sleep 2], True)"
    by (simp add: navigate_to_url_def found_env_def
        try_except_def io_bind_def io_return_def io_do_def io_raise_def
        wait_random_delay_def generate_random_delay_def py_or_def uniform_def time_sleep_def
        Let_def)
  have loop: "ticks found_env = (\<lambda>n. fixed_tick)"
    by (simp add: found_env_def)
  show ?thesis
    by (simp add: simulate_video_watching_def nav found playing loop scenario_loop
        try_except_def io_bind_def io_of_def io_return_def filter_scroll_queue_moves)
qed

text \<open>
  Claim C1 at its own input: scroll probability 1, click probability 0, a watch time of 20
  seconds and every interval draw equal to 5. The session succeeds and the loop issues four
  scroll scripts and no click, but the interaction counters of the session data are never
  written: they are still all zero at completion, and the session report posted to the
  telemetry endpoint carries zero scrolls.
\<close>

theorem scenario3_counters_stay_zero:
  "returned (run_session scenario_config scenario_watcher found_env clock_start clock_end) = True
   \<and> length (filter is_scroll
         (effects (run_session scenario_config scenario_watcher found_env clock_start clock_end))) = 4
   \<and> length (filter is_scroll (fst (watch_loop scenario_config (ticks found_env) 20 0 0))) = 4
   \<and> filter is_click (fst (watch_loop scenario_config (ticks found_env) 20 0 0)) = []
   \<and> interactions (session_data
         (watcher (run_session scenario_config scenario_watcher found_env clock_start clock_end))) =
       \<lparr>clicks = 0, scrolls = 0, pauses = 0\<rparr>
   \<and> posted (run_session scenario_config scenario_watcher found_env clock_start clock_end) =
       [EngagementEvent ''session_start'' scenario_url [(''proxy_type'', ''tor'')],
        WatchSession scenario_url (clock_end - clock_start)
          \<lparr>clicks = 0, scrolls = 0, pauses = 0\<rparr> (Some ''tor'')]"
proof -
  have url: "py_or_str (args_url scenario_watcher) (TARGET_VIDEO_URL scenario_config) = scenario_url"
    by (simp add: py_or_str_def scenario_watcher_def VideoWatcher_init_def scenario_url_def)
  have nonempty: "scenario_url \<noteq> []"
    by (simp add: scenario_url_def)
  have time: "args_watch_time scenario_watcher = Some 20"
    by (simp add: scenario_watcher_def VideoWatcher_init_def)
  have loop: "ticks found_env = (\<lambda>n. fixed_tick)"
    by (simp add: found_env_def)
  show ?thesis
    using scenario_simulation nonempty
    by (simp add: run_session_def Let_def url time loop scenario_loop report_session_completion_def
        send_engagement_event_def send_watch_session_def)
      (simp add: scenario_watcher_def VideoWatcher_init_def send_engagement_event_def
        send_watch_session_def)
qed

end
